theory Spec2Isabelle
  imports Complex_Main "HOL-Library.Word"
begin

section \<open>JavaScript numbers\<close>

text \<open>
  The arithmetic of \<^verbatim>\<open>getMoment\<close> and \<^verbatim>\<open>getMomentStartIndex\<close> is done on JavaScript
  numbers, which are IEEE 754 binary64 values: every operation returns the exact result
  rounded to the nearest value with a significand of 53 bits, ties going to the even
  significand. A finite number is modelled by the rational it denotes.

  \<open>bit_length n\<close> is the number of binary digits of a positive integer, and \<open>expo x\<close> the
  binary exponent of a non-zero rational: the \<open>e\<close> with \<open>2 powi e \<le> \<bar>x\<bar> < 2 powi (e + 1)\<close>,
  found from the bit lengths of numerator and denominator.
\<close>

function bit_length :: "int \<Rightarrow> int" where
  "bit_length n = (if n \<le> 0 then 0 else 1 + bit_length (n div 2))"
  by pat_completeness auto
termination
  by (relation "measure nat") auto

definition expo :: "rat \<Rightarrow> int" where
  "expo x =
     (case quotient_of \<bar>x\<bar> of
        (p, q) \<Rightarrow>
          (let d = bit_length p - bit_length q
           in if 2 powi d \<le> \<bar>x\<bar> then d else d - 1))"

text \<open>\<open>rne r\<close> rounds a rational to the nearest integer, a tie to the even one.\<close>

definition rne :: "rat \<Rightarrow> int" where
  "rne r =
     (let n = \<lfloor>r\<rfloor>; f = r - of_int n
      in if f < 1 / 2 then n else if 1 / 2 < f then n + 1 else if even n then n else n + 1)"

text \<open>
  The values with binary exponent \<open>e\<close> are the multiples of \<open>2 powi (e - 52)\<close>;
  \<open>round_at e x\<close> is the multiple nearest to \<open>x\<close>. The exponent of a value is at least
  \<open>-1022\<close> (below it the values are subnormal, with the spacing of exponent \<open>-1022\<close>), so
  \<open>x\<close> is rounded at \<open>rnd_exp x\<close>.
\<close>

definition round_at :: "int \<Rightarrow> rat \<Rightarrow> rat" where
  "round_at e x = of_int (rne (x / 2 powi (e - 52))) * 2 powi (e - 52)"

definition rnd_exp :: "rat \<Rightarrow> int" where
  "rnd_exp x = max (expo x) (- 1022)"

definition round_value :: "rat \<Rightarrow> rat" where
  "round_value x = (if x = 0 then 0 else round_at (rnd_exp x) x)"

text \<open>
  A number is finite, one of the two infinities, or \<^verbatim>\<open>NaN\<close>. The sign of a zero is not
  represented: it shows only in a division by that zero, and the two functions divide
  by \<^verbatim>\<open>momentSize\<close> alone. \<open>js_round\<close> is the rounding of an exact result: a result that
  rounds to magnitude \<open>2 ^ 1024\<close> or more overflows to an infinity.
\<close>

datatype js_number = Num rat | PosInf | NegInf | NaN

definition js_round :: "rat \<Rightarrow> js_number" where
  "js_round x =
     (let y = round_value x
      in if 2 ^ 1024 \<le> y then PosInf else if y \<le> - (2 ^ 1024) then NegInf else Num y)"

definition inf_of_sign :: "rat \<Rightarrow> js_number" where
  "inf_of_sign s = (if 0 < s then PosInf else if s < 0 then NegInf else NaN)"

fun sign_of :: "js_number \<Rightarrow> rat" where
  "sign_of (Num x) = sgn x"
| "sign_of PosInf = 1"
| "sign_of NegInf = - 1"
| "sign_of NaN = 0"

fun js_neg :: "js_number \<Rightarrow> js_number" where
  "js_neg (Num x) = Num (- x)"
| "js_neg PosInf = NegInf"
| "js_neg NegInf = PosInf"
| "js_neg NaN = NaN"

text \<open>
  The operators \<^verbatim>\<open>+\<close>, \<^verbatim>\<open>-\<close>, \<^verbatim>\<open>*\<close> and \<^verbatim>\<open>/\<close> on numbers. A finite number divided by zero
  is an infinity of its sign and \<^verbatim>\<open>0 / 0\<close> is \<^verbatim>\<open>NaN\<close>; opposite infinities add to
  \<^verbatim>\<open>NaN\<close>, as does zero times an infinity.
\<close>

definition js_add :: "js_number \<Rightarrow> js_number \<Rightarrow> js_number" where
  "js_add a b =
     (case (a, b) of
        (Num x, Num y) \<Rightarrow> js_round (x + y)
      | (NaN, _) \<Rightarrow> NaN
      | (_, NaN) \<Rightarrow> NaN
      | (Num x, _) \<Rightarrow> b
      | (_, Num y) \<Rightarrow> a
      | _ \<Rightarrow> if a = b then a else NaN)"

definition js_sub :: "js_number \<Rightarrow> js_number \<Rightarrow> js_number" where
  "js_sub a b = js_add a (js_neg b)"

definition js_mul :: "js_number \<Rightarrow> js_number \<Rightarrow> js_number" where
  "js_mul a b =
     (case (a, b) of
        (Num x, Num y) \<Rightarrow> js_round (x * y)
      | _ \<Rightarrow> if a = NaN \<or> b = NaN then NaN else inf_of_sign (sign_of a * sign_of b))"

definition js_div :: "js_number \<Rightarrow> js_number \<Rightarrow> js_number" where
  "js_div a b =
     (case (a, b) of
        (Num x, Num y) \<Rightarrow> if y = 0 then inf_of_sign x else js_round (x / y)
      | (NaN, _) \<Rightarrow> NaN
      | (_, NaN) \<Rightarrow> NaN
      | (Num x, _) \<Rightarrow> Num 0
      | (_, Num y) \<Rightarrow> if 0 \<le> y then a else js_neg a
      | _ \<Rightarrow> NaN)"

text \<open>\<^verbatim>\<open>Math.floor\<close>: exact on a finite number, the identity on the others.\<close>

fun Math_floor :: "js_number \<Rightarrow> js_number" where
  "Math_floor (Num q) = Num (of_int \<lfloor>q\<rfloor>)"
| "Math_floor PosInf = PosInf"
| "Math_floor NegInf = NegInf"
| "Math_floor NaN = NaN"

text \<open>The comparison \<^verbatim>\<open>a <= b\<close>, false whenever an operand is \<^verbatim>\<open>NaN\<close>.\<close>

fun js_le :: "js_number \<Rightarrow> js_number \<Rightarrow> bool" where
  "js_le (Num x) (Num y) = (x \<le> y)"
| "js_le NaN b = False"
| "js_le a NaN = False"
| "js_le NegInf b = True"
| "js_le a PosInf = True"
| "js_le a b = False"

text \<open>
  The number with the value of an integer. The integers of magnitude below \<open>2 ^ 53\<close>
  (\<^verbatim>\<open>Number.isSafeInteger\<close>) are all numbers, and the arithmetic is exact as long as its
  results stay among them. A larger integer is a number only if it is a binary64 value;
  \<open>js_int\<close> does not round, so it stands for the integral numbers only.
\<close>

definition js_int :: "int \<Rightarrow> js_number" where
  "js_int z = Num (of_int z)"

definition safe_integer :: "int \<Rightarrow> bool" where
  "safe_integer z \<longleftrightarrow> \<bar>z\<bar> < 2 ^ 53"

section \<open>Moment arithmetic of BaseEvernodeClient\<close>

text \<open>
  \<^verbatim>\<open>this.config.momentBaseInfo\<close> and \<^verbatim>\<open>this.config.momentSize\<close>, the only parts of the
  configuration that \<^verbatim>\<open>getMoment\<close> and \<^verbatim>\<open>getMomentStartIndex\<close> read. The values are
  integral numbers (ledger timestamps and counters): the fields hold the integer, and
  \<open>js_int\<close> makes it the number that the arithmetic works on.
\<close>

record moment_base_info =
  baseIdx :: int
  baseTransitionMoment :: int

record config =
  momentBaseInfo :: moment_base_info
  momentSize :: int

text \<open>
  \<^verbatim>\<open>index || UtilHelpers.getCurrentUnixTime()\<close>. The parameter defaults to \<^verbatim>\<open>null\<close>
  (\<open>None\<close>); \<^verbatim>\<open>||\<close> takes its right operand for every falsy left operand, and the only
  falsy integer is 0. The clock reading is the argument \<open>now\<close>.
\<close>

definition index_or_now :: "int option \<Rightarrow> int \<Rightarrow> int" where
  "index_or_now index now =
     (case index of None \<Rightarrow> now | Some i \<Rightarrow> if i = 0 then now else i)"

text \<open>
  The two functions, operator by operator. \<^verbatim>\<open>await Promise.resolve()\<close> has no effect on
  the value.
\<close>

definition getMoment :: "config \<Rightarrow> int \<Rightarrow> int option \<Rightarrow> js_number" where
  "getMoment cfg now index =
     (let i = js_int (index_or_now index now);
          m = js_add (js_int (baseTransitionMoment (momentBaseInfo cfg)))
                (Math_floor (js_div (js_sub i (js_int (baseIdx (momentBaseInfo cfg))))
                                    (js_int (momentSize cfg))))
      in m)"

definition getMomentStartIndex :: "config \<Rightarrow> int \<Rightarrow> int option \<Rightarrow> js_number" where
  "getMomentStartIndex cfg now index =
     (let i = js_int (index_or_now index now);
          m = Math_floor (js_div (js_sub i (js_int (baseIdx (momentBaseInfo cfg))))
                                 (js_int (momentSize cfg)))
      in js_add (js_int (baseIdx (momentBaseInfo cfg))) (js_mul m (js_int (momentSize cfg))))"

text \<open>
  Configurations used to run the definitions: moments of 10 seconds counted from 0 and
  from 1000, and two whose base index lies so far in the past that differences of
  timestamps leave the safe integers.
\<close>

definition cfg10 :: config where
  "cfg10 = \<lparr>momentBaseInfo = \<lparr>baseIdx = 0, baseTransitionMoment = 0\<rparr>, momentSize = 10\<rparr>"

definition cfg_late :: config where
  "cfg_late = \<lparr>momentBaseInfo = \<lparr>baseIdx = 1000, baseTransitionMoment = 7\<rparr>, momentSize = 10\<rparr>"

definition cfg_wide :: config where
  "cfg_wide = \<lparr>momentBaseInfo = \<lparr>baseIdx = - 9007199254740991, baseTransitionMoment = 0\<rparr>,
     momentSize = 3\<rparr>"

definition cfg7 :: config where
  "cfg7 = \<lparr>momentBaseInfo = \<lparr>baseIdx = - 8907004733409300, baseTransitionMoment = 0\<rparr>,
     momentSize = 7\<rparr>"

section \<open>JavaScript values, buffers and hex strings\<close>

unbundle bit_operations_syntax

type_synonym byte = "8 word"

text \<open>
  What a statement of the source can throw: a \<^verbatim>\<open>RangeError\<close> (a Buffer read outside the
  buffer), a \<^verbatim>\<open>TypeError\<close> (a property of \<^verbatim>\<open>undefined\<close> or \<^verbatim>\<open>null\<close>), a \<^verbatim>\<open>SyntaxError\<close>
  (\<^verbatim>\<open>JSON.parse\<close>), or whatever a library or a \<^verbatim>\<open>throw '...'\<close> statement throws.
\<close>

datatype js_error = RangeError | TypeError | SyntaxError | Thrown string

text \<open>A result that is a thrown error.\<close>

definition throws :: "js_error + 'a \<Rightarrow> bool" where
  "throws r = (case r of Inl e \<Rightarrow> True | Inr v \<Rightarrow> False)"

datatype js_val =
    JUndefined
  | JNull
  | JNaN
  | JNum rat
  | JStr string
  | JBuf "byte list"
  | JArr "js_val list"
  | JObj "(string \<times> js_val) list"

text \<open>Truthiness, as \<^verbatim>\<open>if (v)\<close> and \<^verbatim>\<open>v && ...\<close> test it.\<close>

fun truthy :: "js_val \<Rightarrow> bool" where
  "truthy JUndefined = False"
| "truthy JNull = False"
| "truthy JNaN = False"
| "truthy (JNum n) = (n \<noteq> 0)"
| "truthy (JStr s) = (s \<noteq> [])"
| "truthy (JBuf b) = True"
| "truthy (JArr a) = True"
| "truthy (JObj kvs) = True"

text \<open>
  \<^verbatim>\<open>v.reason\<close>: reading a property of \<^verbatim>\<open>undefined\<close> or \<^verbatim>\<open>null\<close> throws; an object gives
  the property or \<^verbatim>\<open>undefined\<close>; every other value has no such property.
\<close>

fun prop_reason :: "js_val \<Rightarrow> js_error + js_val" where
  "prop_reason JUndefined = Inl TypeError"
| "prop_reason JNull = Inl TypeError"
| "prop_reason (JObj kvs) =
     Inr (case map_of kvs ''reason'' of None \<Rightarrow> JUndefined | Some v \<Rightarrow> v)"
| "prop_reason JNaN = Inr JUndefined"
| "prop_reason (JNum n) = Inr JUndefined"
| "prop_reason (JStr s) = Inr JUndefined"
| "prop_reason (JBuf b) = Inr JUndefined"
| "prop_reason (JArr a) = Inr JUndefined"

definition opt_str :: "string option \<Rightarrow> js_val" where
  "opt_str s = (case s of None \<Rightarrow> JUndefined | Some x \<Rightarrow> JStr x)"

text \<open>
  \<^verbatim>\<open>buf.slice(a, b)\<close>, \<^verbatim>\<open>buf.slice(a)\<close> and \<^verbatim>\<open>str.substr(a, n)\<close> for the non-negative
  constant arguments the source passes: all three clamp to the end and never throw.
\<close>

definition slice_buf :: "nat \<Rightarrow> nat \<Rightarrow> 'a list \<Rightarrow> 'a list" where
  "slice_buf a b xs = take (b - a) (drop a xs)"

definition slice_from :: "nat \<Rightarrow> 'a list \<Rightarrow> 'a list" where
  "slice_from a xs = drop a xs"

definition substr :: "nat \<Rightarrow> nat \<Rightarrow> string \<Rightarrow> string" where
  "substr a n s = take n (drop a s)"

text \<open>The Buffer readers throw a \<^verbatim>\<open>RangeError\<close> when the bytes they need are not there.\<close>

definition readUInt8 :: "byte list \<Rightarrow> nat \<Rightarrow> js_error + nat" where
  "readUInt8 buf off = (if off < length buf then Inr (unat (buf ! off)) else Inl RangeError)"

definition readInt8 :: "byte list \<Rightarrow> nat \<Rightarrow> js_error + int" where
  "readInt8 buf off = (if off < length buf then Inr (sint (buf ! off)) else Inl RangeError)"

definition readUInt16LE :: "byte list \<Rightarrow> nat \<Rightarrow> js_error + nat" where
  "readUInt16LE buf off =
     (if off + 2 \<le> length buf
      then Inr (unat (buf ! off) + 256 * unat (buf ! (off + 1)))
      else Inl RangeError)"

definition readUInt32BE :: "byte list \<Rightarrow> nat \<Rightarrow> js_error + nat" where
  "readUInt32BE buf off =
     (if off + 4 \<le> length buf
      then Inr (unat (buf ! off) * 2 ^ 24 + unat (buf ! (off + 1)) * 2 ^ 16
                + unat (buf ! (off + 2)) * 2 ^ 8 + unat (buf ! (off + 3)))
      else Inl RangeError)"

fun le_bytes :: "byte list \<Rightarrow> nat" where
  "le_bytes [] = 0"
| "le_bytes (b # bs) = unat b + 256 * le_bytes bs"

definition readBigUInt64LE :: "byte list \<Rightarrow> nat \<Rightarrow> js_error + nat" where
  "readBigUInt64LE buf off =
     (if off + 8 \<le> length buf then Inr (le_bytes (take 8 (drop off buf))) else Inl RangeError)"

text \<open>
  \<^verbatim>\<open>Number(n)\<close> of a non-negative BigInt: the nearest double, ties to even. Below
  \<open>2 ^ 53\<close> it is \<open>n\<close> itself; above, the low bits beyond a 53-bit significand are rounded
  away.
\<close>

fun bit_len :: "nat \<Rightarrow> nat" where
  "bit_len n = (if n = 0 then 0 else Suc (bit_len (n div 2)))"

definition Number_of_BigInt :: "nat \<Rightarrow> nat" where
  "Number_of_BigInt n =
     (if n < 2 ^ 53 then n
      else (let e = bit_len n - 53; q = n div 2 ^ e; r = n mod 2 ^ e; h = 2 ^ (e - 1)
            in if h < r \<or> (r = h \<and> odd q) then (q + 1) * 2 ^ e else q * 2 ^ e))"

text \<open>
  \<^verbatim>\<open>Buffer.from(s, 'hex')\<close> decodes pairs of hex digits of either case and stops at the
  first pair that is not two hex digits; a trailing single character is dropped.
  \<^verbatim>\<open>buf.toString('hex')\<close> writes two lower-case digits per byte.
\<close>

definition hex_digit_val :: "char \<Rightarrow> nat option" where
  "hex_digit_val c =
     (let n = (of_char c :: nat) in
      if 48 \<le> n \<and> n \<le> 57 then Some (n - 48)
      else if 65 \<le> n \<and> n \<le> 70 then Some (n - 55)
      else if 97 \<le> n \<and> n \<le> 102 then Some (n - 87)
      else None)"

fun hex_decode :: "string \<Rightarrow> byte list" where
  "hex_decode (a # b # rest) =
     (case hex_digit_val a of
        None \<Rightarrow> []
      | Some x \<Rightarrow> (case hex_digit_val b of
           None \<Rightarrow> []
         | Some y \<Rightarrow> word_of_nat (16 * x + y) # hex_decode rest))"
| "hex_decode [a] = []"
| "hex_decode [] = []"

definition hex_char :: "nat \<Rightarrow> char" where
  "hex_char d = ''0123456789abcdef'' ! d"

definition hex_encode :: "byte list \<Rightarrow> string" where
  "hex_encode bs =
     concat (map (\<lambda>b. [hex_char (unat b div 16), hex_char (unat b mod 16)]) bs)"

text \<open>
  \<^verbatim>\<open>toUpperCase\<close> and \<^verbatim>\<open>toLocaleLowerCase\<close> on ASCII text (the source applies them to hex
  strings only).
\<close>

definition upper_char :: "char \<Rightarrow> char" where
  "upper_char c =
     (case map_of (zip ''abcdefghijklmnopqrstuvwxyz'' ''ABCDEFGHIJKLMNOPQRSTUVWXYZ'') c of
        None \<Rightarrow> c | Some u \<Rightarrow> u)"

definition lower_char :: "char \<Rightarrow> char" where
  "lower_char c =
     (case map_of (zip ''ABCDEFGHIJKLMNOPQRSTUVWXYZ'' ''abcdefghijklmnopqrstuvwxyz'') c of
        None \<Rightarrow> c | Some l \<Rightarrow> l)"

definition toUpperCase :: "string \<Rightarrow> string" where
  "toUpperCase s = map upper_char s"

definition toLocaleLowerCase :: "string \<Rightarrow> string" where
  "toLocaleLowerCase s = map lower_char s"

text \<open>
  \<^verbatim>\<open>Buffer.from(s, "utf-8")\<close>. The characters of a \<open>string\<close> are the code points 0 to
  255: one byte for a code point below 128, and the two bytes \<^verbatim>\<open>110xxxxx 10xxxxxx\<close> for
  the others.
\<close>

definition utf8_char :: "char \<Rightarrow> byte list" where
  "utf8_char c =
     (let n = of_char c :: nat
      in if n < 128 then [of_nat n] else [of_nat (192 + n div 64), of_nat (128 + n mod 64)])"

definition utf8_bytes :: "string \<Rightarrow> byte list" where
  "utf8_bytes s = concat (map utf8_char s)"

text \<open>
  \<^verbatim>\<open>src.copy(target, targetStart)\<close> for \<open>targetStart\<close> inside the target: as many bytes of
  \<open>src\<close> as fit are written over the target from \<open>targetStart\<close> on; the result is the
  target afterwards.
\<close>

definition buf_copy :: "byte list \<Rightarrow> byte list \<Rightarrow> nat \<Rightarrow> byte list" where
  "buf_copy src target targetStart =
     (let n = min (length src) (length target - targetStart)
      in take targetStart target @ take n src @ drop (targetStart + n) target)"

section \<open>Constants of evernode-common\<close>

text \<open>\<^verbatim>\<open>EventTypes\<close>: the values of the event-type hook parameter.\<close>

abbreviation ACQUIRE_LEASE :: string where "ACQUIRE_LEASE \<equiv> ''evnAcquireLease''"
abbreviation ACQUIRE_SUCCESS :: string where "ACQUIRE_SUCCESS \<equiv> ''evnAcquireSuccess''"
abbreviation ACQUIRE_ERROR :: string where "ACQUIRE_ERROR \<equiv> ''evnAcquireError''"
abbreviation HOST_REG :: string where "HOST_REG \<equiv> ''evnHostReg''"
abbreviation HOST_DEREG :: string where "HOST_DEREG \<equiv> ''evnHostDereg''"
abbreviation HOST_UPDATE_INFO :: string where "HOST_UPDATE_INFO \<equiv> ''evnHostUpdateReg''"
abbreviation HEARTBEAT :: string where "HEARTBEAT \<equiv> ''evnHeartbeat''"
abbreviation HOST_TRANSFER :: string where "HOST_TRANSFER \<equiv> ''evnTransfer''"
abbreviation EXTEND_LEASE :: string where "EXTEND_LEASE \<equiv> ''evnExtendLease''"
abbreviation EXTEND_SUCCESS :: string where "EXTEND_SUCCESS \<equiv> ''evnExtendSuccess''"
abbreviation EXTEND_ERROR :: string where "EXTEND_ERROR \<equiv> ''evnExtendError''"
abbreviation TERMINATE_LEASE :: string where "TERMINATE_LEASE \<equiv> ''evnTerminateLease''"
abbreviation INIT :: string where "INIT \<equiv> ''evnInitialize''"
abbreviation DEAD_HOST_PRUNE :: string where "DEAD_HOST_PRUNE \<equiv> ''evnDeadHostPrune''"
abbreviation HOST_REBATE :: string where "HOST_REBATE \<equiv> ''evnHostRebate''"
abbreviation CANDIDATE_PROPOSE :: string where "CANDIDATE_PROPOSE \<equiv> ''evnCandidatePropose''"
abbreviation CANDIDATE_WITHDRAW :: string where "CANDIDATE_WITHDRAW \<equiv> ''evnCandidateWithdraw''"
abbreviation CANDIDATE_VOTE :: string where "CANDIDATE_VOTE \<equiv> ''evnCandidateVote''"
abbreviation CANDIDATE_STATUS_CHANGE :: string where
  "CANDIDATE_STATUS_CHANGE \<equiv> ''evnCandidateStatusChange''"
abbreviation DUD_HOST_REPORT :: string where "DUD_HOST_REPORT \<equiv> ''evnDudHostReport''"
abbreviation HOOK_UPDATE_RES :: string where "HOOK_UPDATE_RES \<equiv> ''evnHookUpdateRes''"
abbreviation GOVERNANCE_MODE_CHANGE :: string where
  "GOVERNANCE_MODE_CHANGE \<equiv> ''evnGovernanceModeChange''"
abbreviation LINKED_CANDIDATE_REMOVE :: string where
  "LINKED_CANDIDATE_REMOVE \<equiv> ''evnRemoveLinkedCandidate''"
abbreviation HOST_UPDATE_REPUTATION :: string where
  "HOST_UPDATE_REPUTATION \<equiv> ''evnHostUpdateReputation''"

text \<open>\<^verbatim>\<open>MemoFormats\<close>.\<close>

abbreviation MemoFormats_JSON :: string where "MemoFormats_JSON \<equiv> ''text/json''"
abbreviation MemoFormats_BASE64 :: string where "MemoFormats_BASE64 \<equiv> ''base64''"
abbreviation MemoFormats_HEX :: string where "MemoFormats_HEX \<equiv> ''hex''"

text \<open>\<^verbatim>\<open>HookParamKeys\<close>.\<close>

abbreviation PARAM_EVENT_TYPE_KEY :: string where
  "PARAM_EVENT_TYPE_KEY \<equiv> ''4556520100000000000000000000000000000000000000000000000000000002''"
abbreviation PARAM_EVENT_DATA_KEY :: string where
  "PARAM_EVENT_DATA_KEY \<equiv> ''4556520100000000000000000000000000000000000000000000000000000003''"
abbreviation PARAM_EVENT_DATA2_KEY :: string where
  "PARAM_EVENT_DATA2_KEY \<equiv> ''4556520100000000000000000000000000000000000000000000000000000004''"

text \<open>\<^verbatim>\<open>EvernodeConstants.CandidateTypes\<close> and \<^verbatim>\<open>CandidateStatuses.CANDIDATE_ELECTED\<close>.\<close>

abbreviation (input) CandidateTypes_NewHook :: int where "CandidateTypes_NewHook \<equiv> 1"
abbreviation (input) CandidateTypes_PilotedMode :: int where "CandidateTypes_PilotedMode \<equiv> 2"
abbreviation (input) CandidateTypes_DudHost :: int where "CandidateTypes_DudHost \<equiv> 3"
abbreviation (input) CANDIDATE_ELECTED :: nat where "CANDIDATE_ELECTED \<equiv> 2"

text \<open>\<^verbatim>\<open>ReputationConstants\<close>.\<close>

abbreviation (input) REP_INFO_PEER_PORT_OFFSET :: nat where "REP_INFO_PEER_PORT_OFFSET \<equiv> 33"
abbreviation (input) REP_INFO_MOMENT_OFFSET :: nat where "REP_INFO_MOMENT_OFFSET \<equiv> 35"

text \<open>The constants at the head of the client module.\<close>

abbreviation (input) CANDIDATE_PROPOSE_HASHES_PARAM_OFFSET :: nat where
  "CANDIDATE_PROPOSE_HASHES_PARAM_OFFSET \<equiv> 0"
abbreviation (input) CANDIDATE_PROPOSE_KEYLETS_PARAM_OFFSET :: nat where
  "CANDIDATE_PROPOSE_KEYLETS_PARAM_OFFSET \<equiv> 128"
abbreviation (input) CANDIDATE_PROPOSE_UNIQUE_ID_PARAM_OFFSET :: nat where
  "CANDIDATE_PROPOSE_UNIQUE_ID_PARAM_OFFSET \<equiv> 264"
abbreviation (input) CANDIDATE_PROPOSE_SHORT_NAME_PARAM_OFFSET :: nat where
  "CANDIDATE_PROPOSE_SHORT_NAME_PARAM_OFFSET \<equiv> 296"
abbreviation (input) CANDIDATE_PROPOSE_PARAM_SIZE :: nat where "CANDIDATE_PROPOSE_PARAM_SIZE \<equiv> 316"
abbreviation (input) MAX_HOOK_PARAM_SIZE :: nat where "MAX_HOOK_PARAM_SIZE \<equiv> 256"
abbreviation (input) DUD_HOST_CANDID_ADDRESS_OFFSET :: nat where "DUD_HOST_CANDID_ADDRESS_OFFSET \<equiv> 12"
abbreviation (input) REPUTATION_HOST_ADDRESS_PARAM_OFFSET :: nat where
  "REPUTATION_HOST_ADDRESS_PARAM_OFFSET \<equiv> 0"
abbreviation (input) REPUTATION_VALUE_PARAM_OFFSET :: nat where "REPUTATION_VALUE_PARAM_OFFSET \<equiv> 20"
abbreviation (input) HOST_DEREG_FROM_REP_PARAM_SIZE :: nat where "HOST_DEREG_FROM_REP_PARAM_SIZE \<equiv> 53"

section \<open>Transactions, events and what the client is given\<close>

text \<open>
  A transaction as \<^verbatim>\<open>extractEvernodeEvent\<close> receives it: memos and hook parameters
  already deserialized into \<^verbatim>\<open>{type, format, data}\<close> and \<^verbatim>\<open>{name, value}\<close> objects of
  strings. A memo field that is absent is the empty string: the source only compares
  the fields with non-empty constants and tests them for truthiness.
\<close>

record memo =
  m_type :: string
  m_format :: string
  m_data :: string

record hook_param =
  hp_name :: string
  hp_value :: string

text \<open>
  \<^verbatim>\<open>tx.Amount\<close> is a string of drops or a \<^verbatim>\<open>{currency, issuer, value}\<close> object.
\<close>

datatype amount = Drops string | IssuedCurrency string string string

fun amount_currency :: "amount \<Rightarrow> js_val" where
  "amount_currency (Drops d) = JUndefined"
| "amount_currency (IssuedCurrency c i v) = JStr c"

fun amount_value :: "amount \<Rightarrow> js_val" where
  "amount_value (Drops d) = JUndefined"
| "amount_value (IssuedCurrency c i v) = JStr v"

record uri_token_offer =
  offer_index :: string
  offer_Amount :: "amount option"

record transaction =
  TransactionType :: string
  Account :: string
  Destination :: "string option"
  hash :: string
  Flags :: "32 word"
  Amount :: "amount option"
  DeliveredAmount :: "amount option"
  URITokenSellOffer :: "uri_token_offer option"
  Memos :: "memo list"
  HookParameters :: "hook_param list"

text \<open>
  The returned \<^verbatim>\<open>{name, data}\<close> object. Every \<^verbatim>\<open>data\<close> starts with
  \<^verbatim>\<open>transaction: tx\<close>, the input itself; \<open>ev_data\<close> lists the fields after it, in the
  order of the source.
\<close>

record evernode_event =
  ev_name :: string
  ev_data :: "(string \<times> js_val) list"

definition event :: "string \<Rightarrow> (string \<times> js_val) list \<Rightarrow> js_error + evernode_event option" where
  "event n d = Inr (Some \<lparr>ev_name = n, ev_data = d\<rparr>)"

text \<open>
  What the classifier uses and this module does not define: the client's own fields
  (\<^verbatim>\<open>this.xrplAcc.address\<close>, \<^verbatim>\<open>this.messagePrivateKey\<close>), the decrypt capability
  \<^verbatim>\<open>EncryptionHelper.decrypt\<close>, the helper \<^verbatim>\<open>StateHelpers.getCandidateType\<close>, the constant
  \<^verbatim>\<open>XrplTransactionTypes.URI_TOKEN_BUY_OFFER\<close>, and the library functions
  \<^verbatim>\<open>codec.encodeAccountID\<close>, \<^verbatim>\<open>xrpl.PaymentFlags.tfPartialPayment\<close>, base64 coding of
  Buffers, \<^verbatim>\<open>JSON.parse\<close> and \<^verbatim>\<open>parseFloat\<close>. They are parameters; each one that can throw
  returns a sum. \<open>JSON_parse_bytes\<close> is \<^verbatim>\<open>JSON.parse(buf.toString())\<close> of a Buffer.
\<close>

record client_env =
  address :: "string option"
  messagePrivateKey :: "string option"
  decrypt :: "string \<Rightarrow> string \<Rightarrow> js_error + js_val"
  base64_decode :: "string \<Rightarrow> byte list"
  base64_encode :: "byte list \<Rightarrow> string"
  JSON_parse :: "string \<Rightarrow> js_error + js_val"
  JSON_parse_bytes :: "byte list \<Rightarrow> js_error + js_val"
  parseFloat :: "js_val \<Rightarrow> js_val"
  encodeAccountID :: "byte list \<Rightarrow> js_error + string"
  getCandidateType :: "string \<Rightarrow> js_error + int"
  URI_TOKEN_BUY_OFFER :: string
  tfPartialPayment :: "32 word"

section \<open>extractEvernodeEvent\<close>

text \<open>
  \<^verbatim>\<open>eventType\<close> and \<^verbatim>\<open>eventData\<close> are read from the hook parameters when there are any.
  \<^verbatim>\<open>eventType\<close> stays \<^verbatim>\<open>undefined\<close> (\<open>None\<close>) otherwise; an \<^verbatim>\<open>eventData\<close> that is
  \<^verbatim>\<open>undefined\<close> is the empty string here, both being falsy and the source reading
  \<^verbatim>\<open>eventData\<close> only after testing it.
\<close>

definition eventType :: "transaction \<Rightarrow> string option" where
  "eventType tx =
     (if HookParameters tx = [] then None
      else map_option hp_value
             (find (\<lambda>p. hp_name p = PARAM_EVENT_TYPE_KEY) (HookParameters tx)))"

definition eventData :: "transaction \<Rightarrow> string" where
  "eventData tx =
     (if HookParameters tx = [] then []
      else (case find (\<lambda>p. hp_name p = PARAM_EVENT_DATA_KEY) (HookParameters tx) of
              None \<Rightarrow> []
            | Some p \<Rightarrow> hp_value p))"

text \<open>\<^verbatim>\<open>tx.Memos.length && P(tx.Memos[0])\<close>.\<close>

definition memo0_has :: "transaction \<Rightarrow> (memo \<Rightarrow> bool) \<Rightarrow> bool" where
  "memo0_has tx P = (case Memos tx of [] \<Rightarrow> False | m # ms \<Rightarrow> P m)"

definition memo0 :: "transaction \<Rightarrow> memo" where
  "memo0 tx = (case Memos tx of [] \<Rightarrow> \<lparr>m_type = [], m_format = [], m_data = []\<rparr> | m # ms \<Rightarrow> m)"

text \<open>The conditions of the \<^verbatim>\<open>if / else if\<close> chain, in the order of the source.\<close>

definition is_acquire_lease :: "client_env \<Rightarrow> transaction \<Rightarrow> bool" where
  "is_acquire_lease env tx \<longleftrightarrow>
     TransactionType tx = URI_TOKEN_BUY_OFFER env \<and> eventType tx = Some ACQUIRE_LEASE
     \<and> memo0_has tx (\<lambda>m. m_type m = ACQUIRE_LEASE \<and> m_format m = MemoFormats_BASE64
                          \<and> m_data m \<noteq> [])"

definition is_acquire_success :: "transaction \<Rightarrow> bool" where
  "is_acquire_success tx \<longleftrightarrow>
     eventType tx = Some ACQUIRE_SUCCESS \<and> eventData tx \<noteq> []
     \<and> memo0_has tx (\<lambda>m. m_type m = ACQUIRE_SUCCESS \<and> m_data m \<noteq> [])"

definition is_acquire_error :: "transaction \<Rightarrow> bool" where
  "is_acquire_error tx \<longleftrightarrow>
     eventType tx = Some ACQUIRE_ERROR \<and> eventData tx \<noteq> []
     \<and> memo0_has tx (\<lambda>m. m_type m = ACQUIRE_ERROR \<and> m_data m \<noteq> [])"

definition is_host_reg :: "transaction \<Rightarrow> bool" where
  "is_host_reg tx \<longleftrightarrow> eventType tx = Some HOST_REG \<and> eventData tx \<noteq> []"

definition is_host_dereg :: "transaction \<Rightarrow> bool" where
  "is_host_dereg tx \<longleftrightarrow> eventType tx = Some HOST_DEREG \<and> eventData tx \<noteq> []"

definition is_heartbeat :: "transaction \<Rightarrow> bool" where
  "is_heartbeat tx \<longleftrightarrow> eventType tx = Some HEARTBEAT"

definition is_extend_lease :: "transaction \<Rightarrow> bool" where
  "is_extend_lease tx \<longleftrightarrow> eventType tx = Some EXTEND_LEASE \<and> eventData tx \<noteq> []"

definition is_terminate_lease :: "transaction \<Rightarrow> bool" where
  "is_terminate_lease tx \<longleftrightarrow> eventType tx = Some TERMINATE_LEASE \<and> eventData tx \<noteq> []"

definition is_extend_success :: "transaction \<Rightarrow> bool" where
  "is_extend_success tx \<longleftrightarrow>
     eventType tx = Some EXTEND_SUCCESS \<and> eventData tx \<noteq> []
     \<and> memo0_has tx (\<lambda>m. m_type m = EXTEND_SUCCESS \<and> m_format m = MemoFormats_HEX
                          \<and> m_data m \<noteq> [])"

definition is_extend_error :: "transaction \<Rightarrow> bool" where
  "is_extend_error tx \<longleftrightarrow>
     eventType tx = Some EXTEND_ERROR \<and> eventData tx \<noteq> []
     \<and> memo0_has tx (\<lambda>m. m_type m = EXTEND_ERROR \<and> m_data m \<noteq> [])"

definition is_init :: "transaction \<Rightarrow> bool" where
  "is_init tx \<longleftrightarrow> eventType tx = Some INIT \<and> eventData tx \<noteq> []"

definition is_host_update_info :: "transaction \<Rightarrow> bool" where
  "is_host_update_info tx \<longleftrightarrow> eventType tx = Some HOST_UPDATE_INFO \<and> eventData tx \<noteq> []"

definition is_dead_host_prune :: "transaction \<Rightarrow> bool" where
  "is_dead_host_prune tx \<longleftrightarrow> eventType tx = Some DEAD_HOST_PRUNE \<and> eventData tx \<noteq> []"

definition is_host_rebate :: "transaction \<Rightarrow> bool" where
  "is_host_rebate tx \<longleftrightarrow> eventType tx = Some HOST_REBATE"

definition is_host_transfer :: "transaction \<Rightarrow> bool" where
  "is_host_transfer tx \<longleftrightarrow> eventType tx = Some HOST_TRANSFER \<and> eventData tx \<noteq> []"

definition is_candidate_propose :: "transaction \<Rightarrow> bool" where
  "is_candidate_propose tx \<longleftrightarrow> eventType tx = Some CANDIDATE_PROPOSE \<and> eventData tx \<noteq> []"

definition is_candidate_withdraw :: "transaction \<Rightarrow> bool" where
  "is_candidate_withdraw tx \<longleftrightarrow> eventType tx = Some CANDIDATE_WITHDRAW \<and> eventData tx \<noteq> []"

definition is_candidate_status_change :: "transaction \<Rightarrow> bool" where
  "is_candidate_status_change tx \<longleftrightarrow>
     eventType tx = Some CANDIDATE_STATUS_CHANGE \<and> eventData tx \<noteq> []"

definition is_linked_candidate_remove :: "transaction \<Rightarrow> bool" where
  "is_linked_candidate_remove tx \<longleftrightarrow>
     eventType tx = Some LINKED_CANDIDATE_REMOVE \<and> eventData tx \<noteq> []"

definition is_hook_update_res :: "transaction \<Rightarrow> bool" where
  "is_hook_update_res tx \<longleftrightarrow> eventType tx = Some HOOK_UPDATE_RES \<and> eventData tx \<noteq> []"

definition is_governance_mode_change :: "transaction \<Rightarrow> bool" where
  "is_governance_mode_change tx \<longleftrightarrow>
     eventType tx = Some GOVERNANCE_MODE_CHANGE \<and> eventData tx \<noteq> []"

definition is_candidate_vote :: "transaction \<Rightarrow> bool" where
  "is_candidate_vote tx \<longleftrightarrow> eventType tx = Some CANDIDATE_VOTE \<and> eventData tx \<noteq> []"

definition is_dud_host_report :: "transaction \<Rightarrow> bool" where
  "is_dud_host_report tx \<longleftrightarrow> eventType tx = Some DUD_HOST_REPORT \<and> eventData tx \<noteq> []"

definition is_host_update_reputation :: "transaction \<Rightarrow> bool" where
  "is_host_update_reputation tx \<longleftrightarrow>
     eventType tx = Some HOST_UPDATE_REPUTATION \<and> eventData tx \<noteq> []"


text \<open>
  The payload of a lease memo, the same statements in the \<^verbatim>\<open>ACQUIRE_LEASE\<close> and the
  \<^verbatim>\<open>ACQUIRE_SUCCESS\<close> branch. \<open>decrypted_payload\<close> is
  \<^verbatim>\<open>this.messagePrivateKey && await EncryptionHelper.decrypt(this.messagePrivateKey, payload)\<close>:
  a missing or empty key is itself the falsy result. The \<^verbatim>\<open>console.log\<close> of the failure
  branch has no effect on the value and is left out.
\<close>

definition decrypted_payload :: "client_env \<Rightarrow> string \<Rightarrow> js_error + js_val" where
  "decrypted_payload env payload =
     (case messagePrivateKey env of
        None \<Rightarrow> Inr JNull
      | Some k \<Rightarrow> if k = [] then Inr (JStr []) else decrypt env k payload)"

definition lease_payload :: "client_env \<Rightarrow> transaction \<Rightarrow> js_error + js_val" where
  "lease_payload env tx =
     (let payload = m_data (memo0 tx) in
      if m_format (memo0 tx) = MemoFormats_BASE64 \<and> Destination tx = address env then
        (case readInt8 (slice_buf 0 1 (base64_decode env payload)) 0 of
           Inl e \<Rightarrow> Inl e
         | Inr prefix \<Rightarrow>
             if prefix = 1 then
               (let payload = base64_encode env (slice_from 1 (base64_decode env payload)) in
                case decrypted_payload env payload of
                  Inl e \<Rightarrow> Inl e
                | Inr decrypted \<Rightarrow> Inr (if truthy decrypted then decrypted else JStr payload))
             else JSON_parse_bytes env (slice_from 1 (base64_decode env payload)))
      else Inr (JStr payload))"

definition acquire_lease_event :: "client_env \<Rightarrow> transaction \<Rightarrow> js_error + evernode_event option" where
  "acquire_lease_event env tx =
     (case lease_payload env tx of
        Inl e \<Rightarrow> Inl e
      | Inr payload \<Rightarrow>
          event ''AcquireLease''
            [(''host'', opt_str (Destination tx)),
             (''uriTokenId'',
                case URITokenSellOffer tx of None \<Rightarrow> JUndefined | Some off \<Rightarrow> JStr (offer_index off)),
             (''leaseAmount'',
                case URITokenSellOffer tx of
                  None \<Rightarrow> JUndefined
                | Some off \<Rightarrow> (case offer_Amount off of None \<Rightarrow> JUndefined | Some a \<Rightarrow> amount_value a)),
             (''acquireRefId'', JStr (hash tx)),
             (''tenant'', JStr (Account tx)),
             (''payload'', payload)])"

definition acquire_success_event :: "client_env \<Rightarrow> transaction \<Rightarrow> js_error + evernode_event option" where
  "acquire_success_event env tx =
     (case lease_payload env tx of
        Inl e \<Rightarrow> Inl e
      | Inr payload \<Rightarrow>
          event ''AcquireSuccess''
            [(''acquireRefId'', JStr (eventData tx)), (''payload'', payload)])"

text \<open>
  \<^verbatim>\<open>let error = tx.Memos[0].data; if (tx.Memos[0].format === MemoFormats.JSON) error =
  JSON.parse(error).reason;\<close>
\<close>

definition error_reason :: "client_env \<Rightarrow> transaction \<Rightarrow> js_error + js_val" where
  "error_reason env tx =
     (let error = m_data (memo0 tx) in
      if m_format (memo0 tx) = MemoFormats_JSON then
        (case JSON_parse env error of Inl e \<Rightarrow> Inl e | Inr v \<Rightarrow> prop_reason v)
      else Inr (JStr error))"

definition host_dereg_event :: "client_env \<Rightarrow> transaction \<Rightarrow> js_error + evernode_event option" where
  "host_dereg_event env tx =
     (case (if length (eventData tx) = HOST_DEREG_FROM_REP_PARAM_SIZE
            then encodeAccountID env (slice_buf 0 20 (hex_decode (eventData tx)))
            else Inr (Account tx)) of
        Inl e \<Rightarrow> Inl e
      | Inr host \<Rightarrow> event ''HostDeregistered'' [(''host'', JStr host)])"

definition heartbeat_event :: "transaction \<Rightarrow> js_error + evernode_event option" where
  "heartbeat_event tx =
     (if eventData tx \<noteq> [] then
        (case readUInt8 (slice_buf 32 33 (hex_decode (eventData tx))) 0 of
           Inl e \<Rightarrow> Inl e
         | Inr vote \<Rightarrow>
             event ''Heartbeat''
               [(''host'', JStr (Account tx)),
                (''voteInfo'', JObj [(''candidateId'', JStr (substr 0 64 (eventData tx))),
                                     (''vote'', JNum (of_nat vote))])])
      else event ''Heartbeat'' [(''host'', JStr (Account tx))])"

definition extend_lease_event :: "client_env \<Rightarrow> transaction \<Rightarrow> js_error + evernode_event option" where
  "extend_lease_event env tx =
     (case Amount tx of
        None \<Rightarrow> Inl TypeError
      | Some a \<Rightarrow>
          (case (if Flags tx AND tfPartialPayment env \<noteq> 0
                 then (case DeliveredAmount tx of
                         None \<Rightarrow> Inl TypeError
                       | Some d \<Rightarrow> Inr (parseFloat env (amount_value d)))
                 else Inr (parseFloat env (amount_value a))) of
             Inl e \<Rightarrow> Inl e
           | Inr payment \<Rightarrow>
               event ''ExtendLease''
                 [(''extendRefId'', JStr (hash tx)),
                  (''tenant'', JStr (Account tx)),
                  (''currency'', amount_currency a),
                  (''payment'', payment),
                  (''uriTokenId'', JStr (eventData tx))]))"

definition extend_success_event :: "transaction \<Rightarrow> js_error + evernode_event option" where
  "extend_success_event tx =
     (case readUInt32BE (hex_decode (m_data (memo0 tx))) 0 of
        Inl e \<Rightarrow> Inl e
      | Inr expiryMoment \<Rightarrow>
          event ''ExtendSuccess''
            [(''extendRefId'', JStr (eventData tx)),
             (''expiryMoment'', JNum (of_nat expiryMoment))])"

text \<open>
  An event whose one computed field is \<^verbatim>\<open>codec.encodeAccountID\<close> of some bytes
  (\<^verbatim>\<open>DeadHostPrune\<close>, \<^verbatim>\<open>HostTransfer\<close>).
\<close>

definition encoded_address_event ::
  "client_env \<Rightarrow> string \<Rightarrow> string \<Rightarrow> byte list \<Rightarrow> js_error + evernode_event option" where
  "encoded_address_event env n field buf =
     (case encodeAccountID env buf of
        Inl e \<Rightarrow> Inl e
      | Inr a \<Rightarrow> event n [(field, JStr a)])"

definition candidate_status_change_event ::
  "client_env \<Rightarrow> transaction \<Rightarrow> js_error + evernode_event option" where
  "candidate_status_change_event env tx =
     (let eventDataBuf = hex_decode (eventData tx);
          candidateId = hex_encode (slice_buf 0 32 eventDataBuf)
      in case getCandidateType env candidateId of
           Inl e \<Rightarrow> Inl e
         | Inr candidateType \<Rightarrow>
             if candidateType = CandidateTypes_DudHost then
               (case readUInt8 eventDataBuf 32 of
                  Inl e \<Rightarrow> Inl e
                | Inr status \<Rightarrow>
                    (case encodeAccountID env
                            (slice_buf DUD_HOST_CANDID_ADDRESS_OFFSET 32 (hex_decode candidateId)) of
                       Inl e \<Rightarrow> Inl e
                     | Inr host \<Rightarrow>
                         event (if status = CANDIDATE_ELECTED then ''DudHostRemoved''
                                else ''DudHostStatusChanged'')
                           [(''candidateId'', JStr candidateId), (''host'', JStr host)]))
             else if candidateType = CandidateTypes_PilotedMode then
               event ''FallbackToPiloted'' [(''candidateId'', JStr candidateId)]
             else if candidateType = CandidateTypes_NewHook then
               event ''NewHookStatusChanged'' [(''candidateId'', JStr candidateId)]
             else Inr None)"

definition linked_candidate_remove_event ::
  "client_env \<Rightarrow> transaction \<Rightarrow> js_error + evernode_event option" where
  "linked_candidate_remove_event env tx =
     (let eventDataBuf = hex_decode (eventData tx);
          candidateId = hex_encode (slice_buf 0 32 eventDataBuf)
      in case getCandidateType env candidateId of
           Inl e \<Rightarrow> Inl e
         | Inr candidateType \<Rightarrow>
             if candidateType = CandidateTypes_DudHost then
               (case encodeAccountID env
                       (slice_buf DUD_HOST_CANDID_ADDRESS_OFFSET 32 (hex_decode candidateId)) of
                  Inl e \<Rightarrow> Inl e
                | Inr host \<Rightarrow>
                    event ''LinkedDudHostCandidateRemoved''
                      [(''candidateId'', JStr candidateId), (''host'', JStr host)])
             else Inr None)"

definition governance_mode_change_event :: "transaction \<Rightarrow> js_error + evernode_event option" where
  "governance_mode_change_event tx =
     (case readUInt8 (slice_buf 0 1 (hex_decode (eventData tx))) 0 of
        Inl e \<Rightarrow> Inl e
      | Inr mode \<Rightarrow> event ''GovernanceModeChanged'' [(''mode'', JNum (of_nat mode))])"

definition candidate_vote_event :: "transaction \<Rightarrow> js_error + evernode_event option" where
  "candidate_vote_event tx =
     (case readUInt8 (slice_buf 32 33 (hex_decode (eventData tx))) 0 of
        Inl e \<Rightarrow> Inl e
      | Inr vote \<Rightarrow>
          event ''FoundationVoted''
            [(''candidateId'', JStr (substr 0 64 (eventData tx))),
             (''vote'', JNum (of_nat vote))])"

definition dud_host_report_event :: "client_env \<Rightarrow> transaction \<Rightarrow> js_error + evernode_event option" where
  "dud_host_report_event env tx =
     (let candidateId = substr 0 64 (eventData tx)
      in case encodeAccountID env
                (slice_buf DUD_HOST_CANDID_ADDRESS_OFFSET 32 (hex_decode candidateId)) of
           Inl e \<Rightarrow> Inl e
         | Inr host \<Rightarrow>
             event ''DudHostReported''
               [(''candidateId'', JStr candidateId), (''host'', JStr host)])"

definition host_update_reputation_event ::
  "client_env \<Rightarrow> transaction \<Rightarrow> js_error + evernode_event option" where
  "host_update_reputation_event env tx =
     (let dataBuf = hex_decode (eventData tx)
      in case encodeAccountID env (slice_buf REPUTATION_HOST_ADDRESS_PARAM_OFFSET 20 dataBuf) of
           Inl e \<Rightarrow> Inl e
         | Inr host \<Rightarrow>
             (case readUInt8 dataBuf REPUTATION_VALUE_PARAM_OFFSET of
                Inl e \<Rightarrow> Inl e
              | Inr reputation \<Rightarrow>
                  event ''HostReputationUpdated''
                    [(''host'', JStr host), (''reputation'', JNum (of_nat reputation))]))"

text \<open>
  The classifier: the first condition that holds selects the branch, and the final
  \<^verbatim>\<open>return null\<close> is \<open>Inr None\<close>. A throw anywhere in the selected branch is \<open>Inl\<close>.
\<close>

definition extractEvernodeEvent ::
  "client_env \<Rightarrow> transaction \<Rightarrow> js_error + evernode_event option" where
  "extractEvernodeEvent env tx =
     (if is_acquire_lease env tx then acquire_lease_event env tx
      else if is_acquire_success tx then acquire_success_event env tx
      else if is_acquire_error tx then
        (case error_reason env tx of
           Inl e \<Rightarrow> Inl e
         | Inr error \<Rightarrow>
             event ''AcquireError'' [(''acquireRefId'', JStr (eventData tx)), (''reason'', error)])
      else if is_host_reg tx then event ''HostRegistered'' [(''host'', JStr (Account tx))]
      else if is_host_dereg tx then host_dereg_event env tx
      else if is_heartbeat tx then heartbeat_event tx
      else if is_extend_lease tx then extend_lease_event env tx
      else if is_terminate_lease tx then
        event ''TerminateLease''
          [(''terminateRefId'', JStr (hash tx)), (''tenant'', JStr (Account tx)),
           (''uriTokenId'', JStr (eventData tx))]
      else if is_extend_success tx then extend_success_event tx
      else if is_extend_error tx then
        (case error_reason env tx of
           Inl e \<Rightarrow> Inl e
         | Inr error \<Rightarrow>
             event ''ExtendError'' [(''extendRefId'', JStr (eventData tx)), (''reason'', error)])
      else if is_init tx then event ''Initialized'' []
      else if is_host_update_info tx then event ''HostRegUpdated'' [(''host'', JStr (Account tx))]
      else if is_dead_host_prune tx then
        encoded_address_event env ''DeadHostPrune'' ''host'' (hex_decode (eventData tx))
      else if is_host_rebate tx then event ''HostRebate'' [(''host'', JStr (Account tx))]
      else if is_host_transfer tx then
        encoded_address_event env ''HostTransfer'' ''transferee'' (hex_decode (eventData tx))
      else if is_candidate_propose tx then
        event ''CandidateProposed''
          [(''owner'', JStr (Account tx)),
           (''candidateId'',
              JStr (substr (CANDIDATE_PROPOSE_UNIQUE_ID_PARAM_OFFSET * 2) 64 (eventData tx)))]
      else if is_candidate_withdraw tx then
        event ''CandidateWithdrawn''
          [(''owner'', JStr (Account tx)), (''candidateId'', JStr (substr 0 64 (eventData tx)))]
      else if is_candidate_status_change tx then candidate_status_change_event env tx
      else if is_linked_candidate_remove tx then linked_candidate_remove_event env tx
      else if is_hook_update_res tx then
        event ''ChildHookUpdated''
          [(''account'', JStr (Account tx)), (''candidateId'', JStr (substr 0 64 (eventData tx)))]
      else if is_governance_mode_change tx then governance_mode_change_event tx
      else if is_candidate_vote tx then candidate_vote_event tx
      else if is_dud_host_report tx then dud_host_report_event env tx
      else if is_host_update_reputation tx then host_update_reputation_event env tx
      else Inr None)"

section \<open>The payload that the propose call sends\<close>

text \<open>
  \<^verbatim>\<open>_propose(hashes, shortName)\<close> from the check of the hashes to the hook parameters it
  hands to \<^verbatim>\<open>makePayment\<close>. The keylets (\<^verbatim>\<open>HookHelpers.getKeylet\<close>, after a ledger lookup
  per hook) and the unique id (\<^verbatim>\<open>StateHelpers.getNewHookCandidateId\<close>) are computed
  outside this module and are arguments here, as the hex strings the source holds.
\<close>

definition propose_paramBuf :: "byte list \<Rightarrow> string list \<Rightarrow> string \<Rightarrow> string \<Rightarrow> byte list" where
  "propose_paramBuf hashesBuf keylets uniqueId shortName =
     (let paramBuf = replicate CANDIDATE_PROPOSE_PARAM_SIZE 0;
          paramBuf = buf_copy hashesBuf paramBuf CANDIDATE_PROPOSE_HASHES_PARAM_OFFSET;
          paramBuf = buf_copy (hex_decode (concat keylets)) paramBuf
                       CANDIDATE_PROPOSE_KEYLETS_PARAM_OFFSET;
          paramBuf = buf_copy (hex_decode uniqueId) paramBuf
                       CANDIDATE_PROPOSE_UNIQUE_ID_PARAM_OFFSET;
          paramBuf = buf_copy (utf8_bytes (substr 0 20 shortName)) paramBuf
                       CANDIDATE_PROPOSE_SHORT_NAME_PARAM_OFFSET
      in paramBuf)"

definition propose_hookParams ::
  "string \<Rightarrow> string list \<Rightarrow> string \<Rightarrow> string \<Rightarrow> js_error + hook_param list" where
  "propose_hookParams hashes keylets uniqueId shortName =
     (let hashesBuf = hex_decode hashes in
      if length hashesBuf \<noteq> 128 then
        Inl (Thrown (''Invalid hashes: Hashes should contain all four Governor, Registry, ''
                     @ ''Heartbeat, Reputation hook hashes.''))
      else (let paramBuf = propose_paramBuf hashesBuf keylets uniqueId shortName
            in Inr [\<lparr>hp_name = PARAM_EVENT_TYPE_KEY, hp_value = CANDIDATE_PROPOSE\<rparr>,
                    \<lparr>hp_name = PARAM_EVENT_DATA_KEY,
                     hp_value = toUpperCase (hex_encode (slice_buf 0 MAX_HOOK_PARAM_SIZE paramBuf))\<rparr>,
                    \<lparr>hp_name = PARAM_EVENT_DATA2_KEY,
                     hp_value = toUpperCase (hex_encode (slice_from MAX_HOOK_PARAM_SIZE paramBuf))\<rparr>]))"

text \<open>
  The transaction the governor account then receives: a payment from the proposer
  that carries these hook parameters and no memo.
\<close>

definition propose_tx :: "string \<Rightarrow> hook_param list \<Rightarrow> transaction" where
  "propose_tx proposer params =
     \<lparr>TransactionType = ''Payment'', Account = proposer, Destination = None, hash = [],
      Flags = 0, Amount = None, DeliveredAmount = None, URITokenSellOffer = None,
      Memos = [], HookParameters = params\<rparr>"

section \<open>Reputation contract info\<close>

text \<open>
  The decoding at the end of \<^verbatim>\<open>getReputationContractInfoByAddress\<close>, from
  \<^verbatim>\<open>if (repBuf)\<close> on: \<open>repBuf\<close> is the buffer read from the ledger, \<open>repMoment\<close> the moment
  queried and \<open>hostDomain\<close> the host's domain. \<open>None\<close> is the \<^verbatim>\<open>return null\<close> at the end; a
  \<^verbatim>\<open>RangeError\<close> is not an \<^verbatim>\<open>entryNotFound\<close> error, so the \<^verbatim>\<open>catch\<close> throws it again.
\<close>

record reputation_contract_info =
  domain :: js_val
  pubkey :: string
  peerPort :: nat

definition instanceMoment :: "byte list \<Rightarrow> js_error + nat option" where
  "instanceMoment repBuf =
     (if length repBuf > REP_INFO_MOMENT_OFFSET then
        (case readBigUInt64LE repBuf REP_INFO_MOMENT_OFFSET of
           Inl e \<Rightarrow> Inl e
         | Inr n \<Rightarrow> Inr (Some (Number_of_BigInt n)))
      else Inr None)"

definition decodeReputationContractInfo ::
  "js_val \<Rightarrow> int \<Rightarrow> byte list \<Rightarrow> js_error + reputation_contract_info option" where
  "decodeReputationContractInfo hostDomain repMoment repBuf =
     (case instanceMoment repBuf of
        Inl e \<Rightarrow> Inl e
      | Inr im \<Rightarrow>
          if map_option int im = Some repMoment then
            (case readUInt16LE repBuf REP_INFO_PEER_PORT_OFFSET of
               Inl e \<Rightarrow> Inl e
             | Inr port \<Rightarrow>
                 Inr (Some \<lparr>domain = hostDomain,
                            pubkey = toLocaleLowerCase
                                       (hex_encode (slice_buf 0 REP_INFO_PEER_PORT_OFFSET repBuf)),
                            peerPort = port\<rparr>))
          else Inr None)"

section \<open>The candidate status change branch of the legacy classifier\<close>

text \<open>
  The legacy \<^verbatim>\<open>extractEvernodeEvent\<close> (memo based) is a chain of the same kind; the branch
  modelled here is the one for \<^verbatim>\<open>MemoTypes.CANDIDATE_STATUS_CHANGE\<close>, its condition and its
  body. The legacy constants (\<^verbatim>\<open>MemoTypes\<close>, the \<^verbatim>\<open>CandidateTypes\<close> it switches on) and
  \<^verbatim>\<open>StateHelpers.getCandidateType\<close> are defined outside this module, and
  \<^verbatim>\<open>codec.decodeAccountID\<close> is a library function: all are parameters. The codec
  functions take and return JavaScript values, because the source passes a Buffer to
  \<^verbatim>\<open>decodeAccountID\<close>.
\<close>

record legacy_env =
  legacy_CANDIDATE_STATUS_CHANGE :: string
  legacy_getCandidateType :: "string \<Rightarrow> js_error + js_val"
  legacy_DudHost :: js_val
  legacy_GovernanceModeChanged :: js_val
  legacy_CandidateProposed :: js_val
  decodeAccountID :: "js_val \<Rightarrow> js_error + js_val"

definition legacy_is_candidate_status_change :: "legacy_env \<Rightarrow> transaction \<Rightarrow> bool" where
  "legacy_is_candidate_status_change lenv tx \<longleftrightarrow>
     length (Memos tx) \<ge> 1
     \<and> memo0_has tx (\<lambda>m. m_type m = legacy_CANDIDATE_STATUS_CHANGE lenv
                          \<and> m_format m = MemoFormats_HEX \<and> m_data m \<noteq> [])"

definition legacy_candidate_status_change_event ::
  "legacy_env \<Rightarrow> transaction \<Rightarrow> js_error + evernode_event option" where
  "legacy_candidate_status_change_event lenv tx =
     (let candidateId = substr 0 64 (m_data (memo0 tx))
      in case legacy_getCandidateType lenv candidateId of
           Inl e \<Rightarrow> Inl e
         | Inr candidateType \<Rightarrow>
             if candidateType = legacy_DudHost lenv then
               (case decodeAccountID lenv (JBuf (slice_buf 12 32 (hex_decode candidateId))) of
                  Inl e \<Rightarrow> Inl e
                | Inr host \<Rightarrow>
                    event ''DudHostRemoved''
                      [(''candidateId'', JStr candidateId), (''host'', host)])
             else if candidateType = legacy_GovernanceModeChanged lenv then
               event ''FallbackToPiloted'' [(''candidateId'', JStr candidateId)]
             else if candidateType = legacy_CandidateProposed lenv then
               event ''CandidateElected'' [(''candidateId'', JStr candidateId)]
             else Inr None)"

section \<open>Values to run the definitions on\<close>

text \<open>
  An instance of the parameters. The base64 and address codecs are tables of true
  values for the few strings used below (\<open>AUJD\<close> is base64 for the bytes 01 42 43,
  \<open>QkM=\<close> for 42 43, \<open>AHt9\<close> for 00 7B 7D; the account ids 0 and 1 have the addresses
  \<open>rrrrrrrrrrrrrrrrrrrrrhoLvTp\<close> and \<open>rrrrrrrrrrrrrrrrrrrrBZbvji\<close>); the address codec
  throws on a payload that is not 20 bytes long, and on a value of the wrong type. The
  candidate type is taken to be the fifth byte of the id, and the decrypt capability
  returns nothing.
\<close>

definition fixture_base64_decode :: "string \<Rightarrow> byte list" where
  "fixture_base64_decode s =
     (if s = ''AUJD'' then [0x01, 0x42, 0x43]
      else if s = ''QkM='' then [0x42, 0x43]
      else if s = ''AHt9'' then [0x00, 0x7B, 0x7D]
      else [])"

definition fixture_base64_encode :: "byte list \<Rightarrow> string" where
  "fixture_base64_encode bs =
     (if bs = [0x01, 0x42, 0x43] then ''AUJD''
      else if bs = [0x42, 0x43] then ''QkM=''
      else if bs = [0x00, 0x7B, 0x7D] then ''AHt9''
      else [])"

abbreviation ACCOUNT_ZERO :: string where "ACCOUNT_ZERO \<equiv> ''rrrrrrrrrrrrrrrrrrrrrhoLvTp''"
abbreviation ACCOUNT_ONE :: string where "ACCOUNT_ONE \<equiv> ''rrrrrrrrrrrrrrrrrrrrBZbvji''"

definition account_id_zero :: "byte list" where
  "account_id_zero = [0, 0, 0, 0, 0, 0, 0, 0, 0, 0, 0, 0, 0, 0, 0, 0, 0, 0, 0, 0]"

definition account_id_one :: "byte list" where
  "account_id_one = [0, 0, 0, 0, 0, 0, 0, 0, 0, 0, 0, 0, 0, 0, 0, 0, 0, 0, 0, 1]"

definition fixture_encodeAccountID :: "byte list \<Rightarrow> js_error + string" where
  "fixture_encodeAccountID bs =
     (if length bs \<noteq> 20 then Inl (Thrown ''unexpected_payload_length'')
      else if bs = account_id_zero then Inr ACCOUNT_ZERO
      else if bs = account_id_one then Inr ACCOUNT_ONE
      else Inl (Thrown ''address not tabulated''))"

definition fixture_decodeAccountID :: "js_val \<Rightarrow> js_error + js_val" where
  "fixture_decodeAccountID v =
     (case v of
        JStr s \<Rightarrow>
          (if s = ACCOUNT_ZERO then Inr (JBuf account_id_zero)
           else if s = ACCOUNT_ONE then Inr (JBuf account_id_one)
           else Inl (Thrown ''address not tabulated''))
      | _ \<Rightarrow> Inl TypeError)"

definition fixture_getCandidateType :: "string \<Rightarrow> js_error + int" where
  "fixture_getCandidateType candidateId =
     (case readUInt8 (hex_decode candidateId) 4 of
        Inl e \<Rightarrow> Inl e
      | Inr t \<Rightarrow> Inr (int t))"

abbreviation hostAddress :: string where "hostAddress \<equiv> ''rESDJA9HFfd6SUEwtQjhStD5ZhPGPt4nMJ''"
abbreviation tenantAddress :: string where "tenantAddress \<equiv> ''r41xYGU6FHJ4vKiXPBm1BGrijL6zjcdp5D''"

definition fixture_env :: client_env where
  "fixture_env =
     \<lparr>address = Some hostAddress,
      messagePrivateKey = Some ''EDFF'',
      decrypt = (\<lambda>k p. Inr JNull),
      base64_decode = fixture_base64_decode,
      base64_encode = fixture_base64_encode,
      JSON_parse = (\<lambda>s. Inl SyntaxError),
      JSON_parse_bytes = (\<lambda>b. if b = [0x7B, 0x7D] then Inr (JObj []) else Inl SyntaxError),
      parseFloat = (\<lambda>v. if v = JStr ''1'' then JNum 1 else JNaN),
      encodeAccountID = fixture_encodeAccountID,
      getCandidateType = fixture_getCandidateType,
      URI_TOKEN_BUY_OFFER = ''URITokenBuy'',
      tfPartialPayment = 0x00020000\<rparr>"

definition fixture_legacy_env :: legacy_env where
  "fixture_legacy_env =
     \<lparr>legacy_CANDIDATE_STATUS_CHANGE = CANDIDATE_STATUS_CHANGE,
      legacy_getCandidateType =
        (\<lambda>c. case fixture_getCandidateType c of Inl e \<Rightarrow> Inl e | Inr t \<Rightarrow> Inr (JNum (of_int t))),
      legacy_DudHost = JNum 3,
      legacy_GovernanceModeChanged = JNum 2,
      legacy_CandidateProposed = JNum 1,
      decodeAccountID = fixture_decodeAccountID\<rparr>"

text \<open>Transactions sent by \<open>tenantAddress\<close> with the given type, destination, parameters and memos.\<close>

definition fixture_tx ::
  "string \<Rightarrow> string option \<Rightarrow> hook_param list \<Rightarrow> memo list \<Rightarrow> transaction" where
  "fixture_tx ttype dest params memos =
     \<lparr>TransactionType = ttype, Account = tenantAddress, Destination = dest,
      hash = ''A1B2'', Flags = 0, Amount = None, DeliveredAmount = None,
      URITokenSellOffer = None, Memos = memos, HookParameters = params\<rparr>"

definition event_params :: "string \<Rightarrow> string \<Rightarrow> hook_param list" where
  "event_params etype edata =
     [\<lparr>hp_name = PARAM_EVENT_TYPE_KEY, hp_value = etype\<rparr>,
      \<lparr>hp_name = PARAM_EVENT_DATA_KEY, hp_value = edata\<rparr>]"



text \<open>
  The id of a dud-host candidate for account id 0: type byte 3 at offset 4, the 20
  bytes of the account id at offset 12. \<open>status_change_tx\<close> carries it with the status
  byte 02 after it, \<open>status_change_short_tx\<close> without a status byte.
\<close>

abbreviation dud_candidate_id :: string where
  "dud_candidate_id \<equiv> ''4556520603000000000000000000000000000000000000000000000000000000''"

definition dud_candidate_id_bytes :: "byte list" where
  "dud_candidate_id_bytes = [0x45, 0x56, 0x52, 0x06, 0x03, 0, 0, 0, 0, 0, 0, 0, 0, 0, 0, 0, 0, 0, 0, 0, 0, 0, 0, 0, 0, 0, 0, 0, 0, 0, 0, 0]"

definition status_change_tx :: transaction where
  "status_change_tx =
     fixture_tx ''Payment'' None
       (event_params CANDIDATE_STATUS_CHANGE (dud_candidate_id @ ''02'')) []"

definition status_change_short_tx :: transaction where
  "status_change_short_tx =
     fixture_tx ''Payment'' None (event_params CANDIDATE_STATUS_CHANGE dud_candidate_id) []"



text \<open>
  A host deregistration sent by the reputation account: the event data is the 53 bytes
  host account id (20, here account id 0), token id (32) and error flag (1), as 106 hex
  digits.
\<close>

definition host_dereg_rep_tx :: transaction where
  "host_dereg_rep_tx =
     fixture_tx ''Payment'' None
       (event_params HOST_DEREG
          (''0000000000000000000000000000000000000000''
           @ ''ABABABABABABABABABABABABABABABABABABABABABABABABABABABABABABABAB''
           @ ''01'')) []"

text \<open>
  Lease memos whose payload is the flag byte 01 followed by the (encrypted) bytes
  42 43, addressed to this client.
\<close>

definition acquire_lease_tx :: transaction where
  "acquire_lease_tx =
     fixture_tx ''URITokenBuy'' (Some hostAddress)
       [\<lparr>hp_name = PARAM_EVENT_TYPE_KEY, hp_value = ACQUIRE_LEASE\<rparr>]
       [\<lparr>m_type = ACQUIRE_LEASE, m_format = MemoFormats_BASE64, m_data = ''AUJD''\<rparr>]"

definition acquire_success_tx :: transaction where
  "acquire_success_tx =
     fixture_tx ''Payment'' (Some hostAddress)
       (event_params ACQUIRE_SUCCESS ''C0FFEE'')
       [\<lparr>m_type = ACQUIRE_SUCCESS, m_format = MemoFormats_BASE64, m_data = ''AUJD''\<rparr>]"

text \<open>A legacy candidate status change about the same dud-host candidate.\<close>

definition legacy_status_change_tx :: transaction where
  "legacy_status_change_tx =
     fixture_tx ''Payment'' None []
       [\<lparr>m_type = CANDIDATE_STATUS_CHANGE, m_format = MemoFormats_HEX,
         m_data = dud_candidate_id\<rparr>]"

text \<open>
  A proposal: four hook hashes of 32 bytes, four keylets of 34 bytes, a unique id of
  32 bytes and a short name.
\<close>

definition propose_hashes :: string where
  "propose_hashes = hex_encode (replicate 128 0x11)"

definition propose_keylets :: "string list" where
  "propose_keylets =
     [hex_encode (replicate 34 0x21), hex_encode (replicate 34 0x22),
      hex_encode (replicate 34 0x23), hex_encode (replicate 34 0x24)]"

definition propose_uniqueId :: string where
  "propose_uniqueId = hex_encode (replicate 32 0xAA)"

definition propose_params :: "hook_param list" where
  "propose_params =
     (case propose_hookParams propose_hashes propose_keylets propose_uniqueId ''test hook'' of
        Inl e \<Rightarrow> []
      | Inr params \<Rightarrow> params)"

text \<open>The reputation buffer of the specification: 33 bytes AB, port 1, moment 5.\<close>

definition rep_info_buffer :: "byte list" where
  "rep_info_buffer = replicate 33 0xAB @ [0x01, 0x00] @ [0x05, 0, 0, 0, 0, 0, 0, 0]"


section \<open>Properties of the rounding\<close>

text \<open>
  The facts about rounding that the moment arithmetic needs: \<open>expo\<close> is the binary
  exponent, rounding is monotone and odd, its error is at most half the spacing, a safe
  integer is its own rounding, and the floor of the rounded quotient of two safe
  integers is their integer quotient.
\<close>

declare bit_length.simps [simp del]

lemma bit_length_nonneg: "0 \<le> bit_length n"
  by (induction n rule: bit_length.induct) (simp add: bit_length.simps)

lemma bit_length_bounds:
  "0 < n \<Longrightarrow> 2 powi (bit_length n - 1) \<le> (of_int n :: rat) \<and> (of_int n :: rat) < 2 powi (bit_length n)"
proof (induction n rule: bit_length.induct)
  case (1 n)
  have b: "bit_length n = 1 + bit_length (n div 2)" using "1.prems" by (simp add: bit_length.simps)
  show ?case
  proof (cases "n div 2 \<le> 0")
    case True
    with "1.prems" have "n = 1" by presburger
    then show ?thesis by (simp add: bit_length.simps)
  next
    case False
    define k where "k = bit_length (n div 2)"
    have ih: "2 powi (k - 1) \<le> (of_int (n div 2) :: rat)" "(of_int (n div 2) :: rat) < 2 powi k"
      using "1.IH" "1.prems" False by (simp_all add: k_def)
    have p: "(2::rat) powi k = 2 * 2 powi (k - 1)" "(2::rat) powi (k + 1) = 2 * 2 powi k"
      by (simp_all add: power_int_diff power_int_add)
    have "2 * (n div 2) \<le> n" "n + 1 \<le> 2 * (n div 2 + 1)" by presburger+
    then have n: "(of_int (2 * (n div 2)) :: rat) \<le> of_int n"
      "(of_int (n + 1) :: rat) \<le> of_int (2 * (n div 2 + 1))"
      by (simp_all only: of_int_le_iff)
    have "n div 2 + 1 \<le> 2 ^ nat k"
    proof -
      have k0: "0 \<le> k" by (simp add: k_def bit_length_nonneg)
      have "(of_int (n div 2) :: rat) < of_int (2 ^ nat k)"
        using ih(2) k0 by (simp add: power_int_def)
      then have "n div 2 < 2 ^ nat k" by (simp only: of_int_less_iff)
      then show ?thesis by simp
    qed
    then have "(of_int (n div 2 + 1) :: rat) \<le> of_int (2 ^ nat k)" by (simp only: of_int_le_iff)
    moreover have "(of_int (2 ^ nat k) :: rat) = 2 powi k"
      using bit_length_nonneg [of "n div 2"] by (simp add: power_int_def k_def)
    ultimately have up: "(of_int (n div 2) :: rat) + 1 \<le> 2 powi k" by simp
    have "2 powi k \<le> (of_int n :: rat)" using ih(1) n(1) p(1) by simp
    moreover have "(of_int n :: rat) < 2 powi (k + 1)" using up n(2) p(2) by simp
    ultimately show ?thesis by (simp add: b k_def add.commute)
  qed
qed

lemma rne_of_int [simp]: "rne (of_int n) = n"
  by (simp add: rne_def)

lemma rne_cases: "rne r = \<lfloor>r\<rfloor> \<or> rne r = \<lfloor>r\<rfloor> + 1"
  by (simp add: rne_def Let_def)

lemma rne_mono: "r \<le> s \<Longrightarrow> rne r \<le> rne s"
proof -
  assume le: "r \<le> s"
  then have fl: "\<lfloor>r\<rfloor> \<le> \<lfloor>s\<rfloor>" by (rule floor_mono)
  show ?thesis
  proof (cases "\<lfloor>r\<rfloor> = \<lfloor>s\<rfloor>")
    case True
    then have "r - of_int \<lfloor>r\<rfloor> \<le> s - of_int \<lfloor>s\<rfloor>" using le by simp
    then show ?thesis using True by (auto simp: rne_def Let_def)
  next
    case False
    with fl have "\<lfloor>r\<rfloor> + 1 \<le> \<lfloor>s\<rfloor>" by simp
    moreover have "rne r \<le> \<lfloor>r\<rfloor> + 1" using rne_cases [of r] by auto
    moreover have "\<lfloor>s\<rfloor> \<le> rne s" using rne_cases [of s] by auto
    ultimately show ?thesis by linarith
  qed
qed

lemma rne_split:
  fixes r :: rat
  defines "n \<equiv> \<lfloor>r\<rfloor>" and "f \<equiv> r - of_int \<lfloor>r\<rfloor>"
  shows "0 \<le> f" "f < 1" "r = of_int n + f"
    "rne r = (if f < 1 / 2 then n else if 1 / 2 < f then n + 1
              else if even n then n else n + 1)"
proof -
  show "0 \<le> f" "f < 1" unfolding f_def by linarith+
  show "r = of_int n + f" by (simp add: f_def n_def)
  show "rne r = (if f < 1 / 2 then n else if 1 / 2 < f then n + 1
              else if even n then n else n + 1)"
    by (simp add: rne_def Let_def n_def f_def)
qed

lemma rne_error: "\<bar>of_int (rne r) - r\<bar> \<le> 1 / 2"
proof -
  define n f where "n = \<lfloor>r\<rfloor>" and "f = r - of_int \<lfloor>r\<rfloor>"
  note s = rne_split [of r, folded n_def f_def]
  have "rne r = n \<and> f \<le> 1 / 2 \<or> rne r = n + 1 \<and> 1 / 2 \<le> f"
    by (subst s(4), subst s(4)) auto
  then show ?thesis
  proof
    assume "rne r = n \<and> f \<le> 1 / 2"
    then show ?thesis using s(1) by (subst (2) s(3)) simp
  next
    assume "rne r = n + 1 \<and> 1 / 2 \<le> f"
    then show ?thesis using s(2) by (subst (2) s(3)) simp
  qed
qed

lemma rne_minus: "rne (- r) = - rne r"
proof (cases "r = of_int \<lfloor>r\<rfloor>")
  case True
  then obtain n where "r = of_int n" ..
  then show ?thesis by (simp flip: of_int_minus)
next
  case False
  define n f where "n = \<lfloor>r\<rfloor>" and "f = r - of_int \<lfloor>r\<rfloor>"
  note s = rne_split [of r, folded n_def f_def]
  have f0: "f \<noteq> 0" using False by (simp add: f_def)
  have nf: "\<lfloor>- r\<rfloor> = - n - 1"
    using False by (simp add: floor_minus ceiling_altdef n_def)
  have ff: "- r - of_int (- n - 1) = 1 - f"
    by (simp add: f_def n_def)
  have "rne (- r) = (if 1 - f < 1 / 2 then - n - 1 else if 1 / 2 < 1 - f then - n - 1 + 1
                     else if even (- n - 1) then - n - 1 else - n - 1 + 1)"
    using rne_split(4) [of "- r"] by (simp only: nf ff)
  moreover have "1 - f < 1 / 2 \<longleftrightarrow> 1 / 2 < f" "1 / 2 < 1 - f \<longleftrightarrow> f < 1 / 2" by auto
  ultimately show ?thesis
    by (subst s(4)) auto
qed

lemma pow2_less_imp_less:
  assumes "(2::rat) powi m < 2 powi n"
  shows "m < n"
proof (rule ccontr)
  assume "\<not> m < n"
  then have "(2::rat) powi n \<le> 2 powi m" by (intro power_int_increasing) auto
  with assms show False by simp
qed

lemma expo_bounds:
  assumes "0 < x"
  shows "2 powi (expo x) \<le> x" and "x < 2 powi (expo x + 1)"
proof -
  obtain p q where pq: "quotient_of x = (p, q)" by (cases "quotient_of x")
  have q: "0 < q" using pq by (rule quotient_of_denom_pos)
  have x: "x = of_int p / of_int q" using pq by (rule quotient_of_div)
  have p: "0 < p" using assms q x by (simp add: zero_less_divide_iff)
  define bp bq where "bp = bit_length p" and "bq = bit_length q"
  note bP = bit_length_bounds [OF p, folded bp_def]
  note bQ = bit_length_bounds [OF q, folded bq_def]
  define d where "d = bp - bq"
  have e: "expo x = (if 2 powi d \<le> x then d else d - 1)"
    using assms by (simp add: expo_def pq Let_def d_def bp_def bq_def)
  have qpos: "(0::rat) < of_int q" using q by simp
  have up: "x < 2 powi (d + 1)"
  proof -
    have "of_int p / of_int q < (2::rat) powi bp / 2 powi (bq - 1)"
      using bP bQ p by (intro frac_less) simp_all
    also have "(2::rat) powi bp / 2 powi (bq - 1) = 2 powi (bp - (bq - 1))"
      by (simp add: power_int_diff)
    also have "bp - (bq - 1) = d + 1" by (simp add: d_def)
    finally show ?thesis by (simp only: x)
  qed
  have lo: "2 powi (d - 1) \<le> x"
  proof -
    have "(2::rat) powi (bp - 1) / 2 powi bq \<le> of_int p / of_int q"
      using bP bQ qpos p by (intro frac_le) simp_all
    moreover have "(2::rat) powi (bp - 1) / 2 powi bq = 2 powi (bp - 1 - bq)"
      by (simp add: power_int_diff)
    moreover have "bp - 1 - bq = d - 1" by (simp add: d_def)
    ultimately show ?thesis by (simp only: x)
  qed
  show "2 powi (expo x) \<le> x" using lo by (simp add: e)
  show "x < 2 powi (expo x + 1)" using up by (simp add: e)
qed

lemma expo_abs [simp]: "expo (- x) = expo x"
  by (simp add: expo_def)

lemma expo_mono:
  assumes "0 < x" "x \<le> y"
  shows "expo x \<le> expo y"
proof -
  have "2 powi (expo x) \<le> x" using assms(1) by (rule expo_bounds)
  also have "x \<le> y" by fact
  also have "y < 2 powi (expo y + 1)" using assms by (intro expo_bounds) simp
  finally have "expo x < expo y + 1" by (rule pow2_less_imp_less)
  then show ?thesis by simp
qed

lemma round_at_mono: "x \<le> y \<Longrightarrow> round_at e x \<le> round_at e y"
  unfolding round_at_def
  by (intro mult_right_mono iffD2 [OF of_int_le_iff] rne_mono divide_right_mono) simp_all

lemma round_at_exact [simp]: "round_at e (of_int k * 2 powi (e - 52)) = of_int k * 2 powi (e - 52)"
  by (simp add: round_at_def)

lemma round_at_minus: "round_at e (- x) = - round_at e x"
  by (simp add: round_at_def rne_minus)

lemma rne_zero [simp]: "rne 0 = 0"
  using rne_of_int [of 0] by simp

lemma round_at_zero [simp]: "round_at e 0 = 0"
  by (simp add: round_at_def)

lemma pow2_split:
  "(2::rat) powi e = 2 ^ 52 * 2 powi (e - 52)"
  "(2::rat) powi (e + 1) = 2 ^ 53 * 2 powi (e - 52)"
  "(2::rat) powi (e - 53) * 2 = 2 powi (e - 52)"
proof -
  have "e = 52 + (e - 52)" by simp
  then have "(2::rat) powi e = 2 powi (52 + (e - 52))" by (rule arg_cong)
  also have "\<dots> = 2 powi 52 * 2 powi (e - 52)" by (subst power_int_add) simp_all
  finally show "(2::rat) powi e = 2 ^ 52 * 2 powi (e - 52)" by simp
  have "e + 1 = 53 + (e - 52)" by simp
  then have "(2::rat) powi (e + 1) = 2 powi (53 + (e - 52))" by (rule arg_cong)
  also have "\<dots> = 2 powi 53 * 2 powi (e - 52)" by (subst power_int_add) simp_all
  finally show "(2::rat) powi (e + 1) = 2 ^ 53 * 2 powi (e - 52)" by simp
  have "e - 52 = (e - 53) + 1" by simp
  then have "(2::rat) powi (e - 52) = 2 powi ((e - 53) + 1)" by (rule arg_cong)
  also have "\<dots> = 2 powi (e - 53) * 2 powi 1" by (subst power_int_add) simp_all
  finally show "(2::rat) powi (e - 53) * 2 = 2 powi (e - 52)" by simp
qed

lemma round_at_lower: "2 powi e \<le> x \<Longrightarrow> 2 powi e \<le> round_at e x"
  using round_at_mono [of "2 powi e" x e] round_at_exact [of e "2 ^ 52"]
  by (simp add: pow2_split(1) [of e])

lemma round_at_upper: "x \<le> 2 powi (e + 1) \<Longrightarrow> round_at e x \<le> 2 powi (e + 1)"
  using round_at_mono [of x "2 powi (e + 1)" e] round_at_exact [of e "2 ^ 53"]
  by (simp add: pow2_split(2) [of e])

lemma round_at_error: "\<bar>round_at e x - x\<bar> \<le> 2 powi (e - 53)"
proof -
  define u :: rat where "u = 2 powi (e - 52)"
  have u: "0 < u" by (simp add: u_def)
  have "round_at e x - x = (of_int (rne (x / u)) - x / u) * u"
    using u by (simp add: round_at_def u_def algebra_simps)
  then have "\<bar>round_at e x - x\<bar> = \<bar>of_int (rne (x / u)) - x / u\<bar> * u"
    using u by (simp add: abs_mult)
  also have "\<dots> \<le> 1 / 2 * u"
    using u by (intro mult_right_mono rne_error) simp
  also have "1 / 2 * u = 2 powi (e - 53)"
    using pow2_split(3) [of e] by (simp add: u_def)
  finally show ?thesis .
qed

lemma round_value_alt: "round_value x = (if x = 0 then 0 else round_at (rnd_exp x) x)"
  by (simp add: round_value_def)

lemma round_value_minus: "round_value (- x) = - round_value x"
  by (simp add: round_value_alt rnd_exp_def round_at_minus)

lemma round_value_nonneg: "0 \<le> x \<Longrightarrow> 0 \<le> round_value x"
  using round_at_mono [of 0 x "rnd_exp x"] by (simp add: round_value_alt)

lemma round_value_mono_pos:
  assumes "0 < x" "x \<le> y"
  shows "round_value x \<le> round_value y"
proof -
  have y: "0 < y" using assms by simp
  have e: "rnd_exp x \<le> rnd_exp y"
    using expo_mono [OF assms] by (simp add: rnd_exp_def)
  show ?thesis
  proof (cases "rnd_exp x = rnd_exp y")
    case True
    then show ?thesis using assms y round_at_mono [OF assms(2)] by (simp add: round_value_alt)
  next
    case False
    with e have lt: "rnd_exp x + 1 \<le> rnd_exp y" by simp
    then have ey: "rnd_exp y = expo y" by (simp add: rnd_exp_def max_def split: if_splits)
    have "x < 2 powi (expo x + 1)" using assms(1) by (rule expo_bounds)
    also have "(2::rat) powi (expo x + 1) \<le> 2 powi (rnd_exp x + 1)"
      by (intro power_int_increasing) (simp_all add: rnd_exp_def)
    finally have "round_at (rnd_exp x) x \<le> 2 powi (rnd_exp x + 1)"
      by (intro round_at_upper) simp
    also have "(2::rat) powi (rnd_exp x + 1) \<le> 2 powi (rnd_exp y)"
      using lt by (intro power_int_increasing) simp_all
    also have "\<dots> \<le> round_at (rnd_exp y) y"
      unfolding ey using y by (intro round_at_lower expo_bounds)
    finally show ?thesis using assms y by (simp add: round_value_alt)
  qed
qed

lemma round_value_mono: "x \<le> y \<Longrightarrow> round_value x \<le> round_value y"
proof -
  assume le: "x \<le> y"
  consider "0 < x" | "x \<le> 0" "0 \<le> y" | "y < 0" by linarith
  then show ?thesis
  proof cases
    case 1
    then show ?thesis using le by (rule round_value_mono_pos)
  next
    case 2
    have "round_value x \<le> 0" using round_value_nonneg [of "- x"] 2(1) by (simp add: round_value_minus)
    also have "0 \<le> round_value y" using 2(2) by (rule round_value_nonneg)
    finally show ?thesis .
  next
    case 3
    then have "0 < - y" "- y \<le> - x" using le by simp_all
    then have "round_value (- y) \<le> round_value (- x)" by (rule round_value_mono_pos)
    then show ?thesis by (simp add: round_value_minus)
  qed
qed

lemma round_value_error:
  "x \<noteq> 0 \<Longrightarrow> \<bar>round_value x - x\<bar> \<le> 2 powi (rnd_exp x - 53)"
  by (simp add: round_value_alt round_at_error)

lemma round_value_safe_integer:
  assumes "safe_integer z"
  shows "round_value (of_int z) = of_int z"
proof (cases "z = 0")
  case True
  then show ?thesis by (simp add: round_value_alt)
next
  case False
  define x :: rat where "x = \<bar>of_int z\<bar>"
  have xz: "x = of_int \<bar>z\<bar>" by (simp add: x_def)
  have "1 \<le> \<bar>z\<bar>" using False by linarith
  then have "(of_int 1 :: rat) \<le> of_int \<bar>z\<bar>" by (simp only: of_int_le_iff)
  moreover have "(of_int \<bar>z\<bar> :: rat) < of_int (2 ^ 53)"
    using assms unfolding safe_integer_def by (simp only: of_int_less_iff)
  ultimately have x: "1 \<le> x" "x < 2 ^ 53" by (simp_all add: xz)
  have e: "expo (of_int z) = expo x" by (simp add: x_def expo_def)
  have "2 powi (expo x) \<le> x" "x < 2 powi (expo x + 1)" using x(1) by (intro expo_bounds; simp)+
  with x have p: "(2::rat) powi (expo x) < 2 powi 53" "(2::rat) powi 0 < 2 powi (expo x + 1)"
    by simp_all
  have "expo x < 53" using p(1) by (rule pow2_less_imp_less)
  moreover have "0 < expo x + 1" using p(2) by (rule pow2_less_imp_less)
  ultimately have "expo x < 53" "0 < expo x + 1" .
  then have r: "rnd_exp (of_int z) = expo x" "0 \<le> expo x" "expo x \<le> 52"
    by (simp_all add: rnd_exp_def e)
  define n where "n = nat (52 - expo x)"
  have u: "(2::rat) powi (expo x - 52) = 1 / 2 ^ n"
    using r(3) by (simp add: n_def power_int_def nat_diff_distrib' field_simps)
  have eq: "(of_int z :: rat) = of_int (z * 2 ^ n) * 2 powi (expo x - 52)" by (simp add: u)
  have "round_at (expo x) (of_int (z * 2 ^ n) * 2 powi (expo x - 52))
          = of_int (z * 2 ^ n) * 2 powi (expo x - 52)"
    by (rule round_at_exact)
  then have "round_at (expo x) (of_int z) = (of_int z :: rat)"
    by (simp only: eq [symmetric])
  then show ?thesis using False by (simp add: round_value_alt r(1))
qed

lemma expo_bounds_abs:
  assumes "x \<noteq> 0"
  shows "2 powi (expo x) \<le> \<bar>x\<bar>"
proof (cases "0 < x")
  case True
  then show ?thesis using expo_bounds(1) [of x] by simp
next
  case False
  with assms have "0 < - x" by simp
  then show ?thesis using expo_bounds(1) [of "- x"] by simp
qed

lemma div_safe_integer:
  assumes "safe_integer a" and "0 < b"
  shows "safe_integer (a div b)"
proof -
  define x :: rat where "x = of_int a / of_int b"
  define k where "k = a div b"
  have kf: "k = \<lfloor>x\<rfloor>" by (simp add: k_def x_def floor_divide_of_int_eq)
  have kx: "of_int k \<le> x" "x < of_int k + 1" unfolding kf by linarith+
  have bq: "(0::rat) < of_int b" "(1::rat) \<le> of_int b" using assms(2) by simp_all
  have A: "\<bar>a\<bar> < 2 ^ 53" using assms(1) by (simp add: safe_integer_def)
  have xa: "\<bar>x\<bar> \<le> \<bar>of_int a\<bar>"
  proof -
    have "\<bar>x\<bar> = \<bar>of_int a\<bar> / of_int b" using bq by (simp add: x_def)
    also have "\<dots> \<le> \<bar>of_int a\<bar> / 1" using bq by (intro divide_left_mono) simp_all
    finally show ?thesis by simp
  qed
  have "of_int k \<le> (of_int \<bar>a\<bar> :: rat)" using kx(1) xa by simp
  then have 1: "k \<le> \<bar>a\<bar>" by (simp only: of_int_le_iff)
  have "(of_int (- \<bar>a\<bar> - 1) :: rat) < of_int k" using kx(2) xa by simp
  then have 2: "- \<bar>a\<bar> - 1 < k" by (simp only: of_int_less_iff)
  from 1 2 A show ?thesis by (simp add: safe_integer_def k_def)
qed

lemma round_value_div_bounds:
  assumes "safe_integer a" and "0 < b" and "safe_integer b"
  defines "x \<equiv> (of_int a / of_int b :: rat)"
  shows "of_int (a div b) \<le> round_value x" and "round_value x < of_int (a div b) + 1"
proof -
  define k where "k = a div b"
  have kf: "k = \<lfloor>x\<rfloor>" by (simp add: k_def x_def floor_divide_of_int_eq)
  have kx: "of_int k \<le> x" "x < of_int k + 1" unfolding kf by linarith+
  have bq: "(0::rat) < of_int b" "(1::rat) \<le> of_int b" using assms(2) by simp_all
  have A: "\<bar>a\<bar> < 2 ^ 53" using assms(1) by (simp add: safe_integer_def)
  have B: "b < 2 ^ 53" using assms(2,3) by (simp add: safe_integer_def)
  have Aq: "\<bar>of_int a :: rat\<bar> < 2 ^ 53"
  proof -
    have "(of_int \<bar>a\<bar> :: rat) < of_int (2 ^ 53)" using A by (simp only: of_int_less_iff)
    then show ?thesis by simp
  qed
  have Bq: "(of_int b :: rat) < 2 ^ 53"
  proof -
    have "(of_int b :: rat) < of_int (2 ^ 53)" using B by (simp only: of_int_less_iff)
    then show ?thesis by simp
  qed
  have xa: "\<bar>x\<bar> \<le> \<bar>of_int a\<bar>"
  proof -
    have "\<bar>x\<bar> = \<bar>of_int a\<bar> / of_int b" using bq by (simp add: x_def)
    also have "\<dots> \<le> \<bar>of_int a\<bar> / 1" using bq by (intro divide_left_mono) simp_all
    finally show ?thesis by simp
  qed
  have ksafe: "safe_integer k"
    unfolding k_def using assms(1,2) by (rule div_safe_integer)
  have "of_int k = round_value (of_int k)" using ksafe by (simp add: round_value_safe_integer)
  also have "\<dots> \<le> round_value x" using kx(1) by (rule round_value_mono)
  finally show "of_int (a div b) \<le> round_value x" by (simp add: k_def)
  show "round_value x < of_int (a div b) + 1"
  proof (cases "x = 0")
    case True
    then have "k = 0" by (simp add: kf)
    then show ?thesis using True by (simp add: round_value_alt k_def)
  next
    case False
    have err: "2 powi (rnd_exp x - 53) < 1 / (of_int b :: rat)"
    proof (cases "rnd_exp x = expo x")
      case True
      have "(2::rat) powi (expo x - 53) = 2 powi (expo x) / 2 powi 53"
        by (subst power_int_diff) simp_all
      also have "\<dots> \<le> \<bar>x\<bar> / 2 ^ 53"
        using expo_bounds_abs [OF False] by (simp add: divide_right_mono)
      also have "\<dots> = \<bar>of_int a\<bar> / 2 ^ 53 / of_int b"
        using bq by (simp add: x_def)
      also have "\<dots> < 1 / of_int b"
        using bq Aq by (intro divide_strict_right_mono) simp_all
      finally show ?thesis by (simp add: True)
    next
      case False
      then have "rnd_exp x = - 1022" by (simp add: rnd_exp_def max_def split: if_splits)
      then have "(2::rat) powi (rnd_exp x - 53) = 2 powi (- 1075)" by simp
      also have "\<dots> \<le> 2 powi (- 53)" by (intro power_int_increasing) simp_all
      also have "\<dots> = 1 / 2 ^ 53" by (simp add: power_int_minus_divide)
      also have "\<dots> < 1 / of_int b"
        using bq Bq by (intro divide_strict_left_mono) simp_all
      finally show ?thesis .
    qed
    have "a < (k + 1) * b"
    proof -
      have "(of_int a :: rat) < of_int ((k + 1) * b)"
        using kx(2) bq by (simp add: x_def pos_divide_less_eq)
      then show ?thesis by (simp only: of_int_less_iff)
    qed
    then have "a + 1 \<le> (k + 1) * b" by simp
    then have "(of_int (a + 1) :: rat) \<le> of_int ((k + 1) * b)" by (simp only: of_int_le_iff)
    then have step: "x + 1 / of_int b \<le> of_int k + 1"
      using bq by (simp add: x_def field_simps)
    have "round_value x \<le> x + \<bar>round_value x - x\<bar>" by simp
    also have "\<dots> \<le> x + 2 powi (rnd_exp x - 53)"
      using round_value_error [OF False] by simp
    also have "\<dots> < x + 1 / of_int b" using err by simp
    also have "\<dots> \<le> of_int k + 1" by (rule step)
    finally show ?thesis by (simp add: k_def)
  qed
qed

lemma round_value_div_floor:
  assumes "safe_integer a" and "0 < b" and "safe_integer b"
  shows "\<lfloor>round_value (of_int a / of_int b)\<rfloor> = a div b"
  using round_value_div_bounds [OF assms] by (intro floor_unique) simp_all

lemma js_round_Num: "\<bar>round_value x\<bar> < 2 ^ 1024 \<Longrightarrow> js_round x = Num (round_value x)"
  by (auto simp: js_round_def Let_def)

lemma js_round_safe_integer: "safe_integer z \<Longrightarrow> js_round (of_int z) = Num (of_int z)"
proof -
  assume s: "safe_integer z"
  then have "(of_int \<bar>z\<bar> :: rat) < of_int (2 ^ 53)"
    unfolding safe_integer_def by (simp only: of_int_less_iff)
  then have "\<bar>of_int z :: rat\<bar> < 2 ^ 53" by simp
  also have "(2::rat) ^ 53 < 2 ^ 1024" by simp
  finally show ?thesis using s by (simp add: js_round_Num round_value_safe_integer)
qed

lemma js_round_div_safe:
  assumes "safe_integer a" and "0 < b" and "safe_integer b"
  shows "\<exists>q. js_round (of_int a / of_int b) = Num q \<and> \<lfloor>q\<rfloor> = a div b"
proof -
  let ?x = "of_int a / of_int b :: rat"
  note bd = round_value_div_bounds [OF assms]
  have fq: "\<lfloor>round_value ?x\<rfloor> = a div b" using assms by (rule round_value_div_floor)
  have "safe_integer (a div b)" using assms(1,2) by (rule div_safe_integer)
  then have "\<bar>a div b\<bar> < 2 ^ 53" by (simp add: safe_integer_def)
  then have k: "- (2 ^ 53) < a div b" "a div b < 2 ^ 53" by simp_all
  have "(of_int (- (2 ^ 53)) :: rat) < of_int (a div b)" using k(1) by (simp only: of_int_less_iff)
  moreover have "a div b + 1 \<le> 2 ^ 53" using k(2) by simp
  then have "(of_int (a div b + 1) :: rat) \<le> of_int (2 ^ 53)"
    by (simp only: of_int_le_iff)
  ultimately have "- (2 ^ 53) < round_value ?x" "round_value ?x < 2 ^ 53" using bd by simp_all
  then have "\<bar>round_value ?x\<bar> < 2 ^ 1024" by simp
  then show ?thesis using fq by (simp add: js_round_Num)
qed


text \<open>
  Roundings of particular values, from the position of the value between two powers
  of 2.
\<close>

lemma expo_unique:
  assumes "2 powi e \<le> x" and "x < 2 powi (e + 1)"
  shows "expo x = e"
proof -
  have "(0::rat) < 2 powi e" by simp
  with assms(1) have x: "0 < x" by linarith
  note b = expo_bounds [OF x]
  have "(2::rat) powi e < 2 powi (expo x + 1)" using assms(1) b(2) by linarith
  then have 1: "e < expo x + 1" by (rule pow2_less_imp_less)
  have "(2::rat) powi (expo x) < 2 powi (e + 1)" using assms(2) b(1) by linarith
  then have 2: "expo x < e + 1" by (rule pow2_less_imp_less)
  from 1 2 show ?thesis by simp
qed

lemma rne_ratio:
  assumes "0 < q"
  shows "rne (of_int p / of_int q) =
           (if 2 * (p mod q) < q then p div q
            else if q < 2 * (p mod q) then p div q + 1
            else if even (p div q) then p div q else p div q + 1)"
proof -
  have fl: "\<lfloor>(of_int p / of_int q :: rat)\<rfloor> = p div q" by (simp add: floor_divide_of_int_eq)
  have "(of_int (p div q) * of_int q + of_int (p mod q) :: rat)
          = of_int (p div q * q + p mod q)"
    by (simp only: of_int_add of_int_mult)
  also have "\<dots> = of_int p" by (simp only: div_mult_mod_eq)
  finally have f: "(of_int p / of_int q :: rat) - of_int (p div q) = of_int (p mod q) / of_int q"
    using assms by (simp add: field_simps)
  have lt: "(of_int (p mod q) / of_int q :: rat) < 1 / 2 \<longleftrightarrow> 2 * (p mod q) < q"
  proof -
    have "(of_int (p mod q) / of_int q :: rat) < 1 / 2
            \<longleftrightarrow> (of_int (2 * (p mod q)) :: rat) < of_int q"
      using assms by (simp add: field_simps)
    then show ?thesis by (simp only: of_int_less_iff)
  qed
  have gt: "1 / 2 < (of_int (p mod q) / of_int q :: rat) \<longleftrightarrow> q < 2 * (p mod q)"
  proof -
    have "1 / 2 < (of_int (p mod q) / of_int q :: rat)
            \<longleftrightarrow> (of_int q :: rat) < of_int (2 * (p mod q))"
      using assms by (simp add: field_simps)
    then show ?thesis by (simp only: of_int_less_iff)
  qed
  show ?thesis
    unfolding rne_def Let_def fl f lt gt ..
qed

lemma js_round_in_binade:
  assumes "2 powi e \<le> x" and "x < 2 powi (e + 1)" and "- 1022 \<le> e" and "e \<le> 1022"
    and "x / 2 powi (e - 52) = of_int p / of_int q" and "0 < q"
  shows "js_round x =
           Num (of_int (if 2 * (p mod q) < q then p div q
                        else if q < 2 * (p mod q) then p div q + 1
                        else if even (p div q) then p div q else p div q + 1)
                * 2 powi (e - 52))"
proof -
  have "(0::rat) < 2 powi e" by simp
  with assms(1) have x: "0 < x" by linarith
  have e: "expo x = e" using assms(1,2) by (rule expo_unique)
  have r: "round_value x = round_at e x"
    using x assms(3) by (simp add: round_value_def rnd_exp_def e max_def)
  have "\<bar>round_at e x\<bar> \<le> 2 powi (e + 1)"
    using round_at_upper [of x e] round_at_lower [of e x] assms(1,2) \<open>(0::rat) < 2 powi e\<close>
    by linarith
  also have "\<dots> \<le> 2 powi 1023" using assms(4) by (intro power_int_increasing) simp_all
  also have "\<dots> < 2 ^ 1024" by simp
  finally have "\<bar>round_value x\<bar> < 2 ^ 1024" by (simp add: r)
  then show ?thesis
    by (simp only: js_round_Num r round_at_def assms(5) rne_ratio [OF assms(6)])
qed

lemma round_quotient_example_1: "js_round (18014398509481982 / 3) = Num 6004799503160661"
  using js_round_in_binade [of 52 "18014398509481982 / 3" 18014398509481982 3]
  by simp

lemma round_difference_example_1: "js_round 18014398509481982 = Num 18014398509481982"
  using js_round_in_binade [of 53 "18014398509481982" 9007199254740991 1]
  by simp

lemma round_quotient_example_2: "js_round (14229972106205318 / 7) = Num (8131412632117325 / 4)"
  using js_round_in_binade [of 50 "14229972106205318 / 7" "4 * 14229972106205318" 7]
  by simp

lemma round_product_example_2: "js_round 14229972106205317 = Num 14229972106205316"
  using js_round_in_binade [of 53 "14229972106205317" 14229972106205317 2]
  by simp

section \<open>Properties of the moment arithmetic\<close>

text \<open>
  Inside the safe integers every operator of the two functions is exact, and for every
  magnitude each of them is monotone.
\<close>

lemma js_sub_int: "js_sub (js_int a) (js_int b) = js_round (of_int (a - b))"
  by (simp add: js_sub_def js_add_def js_int_def)

lemma js_add_int: "js_add (js_int a) (js_int b) = js_round (of_int (a + b))"
  by (simp add: js_add_def js_int_def)

lemma js_mul_int: "js_mul (js_int a) (js_int b) = js_round (of_int (a * b))"
  by (simp add: js_mul_def js_int_def)

lemma js_sub_safe: "safe_integer (a - b) \<Longrightarrow> js_sub (js_int a) (js_int b) = js_int (a - b)"
  unfolding js_sub_int by (simp only: js_round_safe_integer js_int_def)

lemma js_add_safe: "safe_integer (a + b) \<Longrightarrow> js_add (js_int a) (js_int b) = js_int (a + b)"
  unfolding js_add_int by (simp only: js_round_safe_integer js_int_def)

lemma js_mul_safe: "safe_integer (a * b) \<Longrightarrow> js_mul (js_int a) (js_int b) = js_int (a * b)"
  unfolding js_mul_int by (simp only: js_round_safe_integer js_int_def)

lemma floor_quotient_safe:
  assumes "0 < m" and "safe_integer m" and "safe_integer a"
  shows "Math_floor (js_div (js_int a) (js_int m)) = js_int (a div m)"
proof -
  obtain q where q: "js_round (of_int a / of_int m) = Num q" "\<lfloor>q\<rfloor> = a div m"
    using js_round_div_safe [OF assms(3,1,2)] by blast
  then show ?thesis using assms(1) by (simp add: js_div_def js_int_def)
qed

lemma getMoment_safe:
  fixes cfg now index
  defines "i \<equiv> index_or_now index now"
  defines "b \<equiv> baseIdx (momentBaseInfo cfg)"
  defines "m \<equiv> momentSize cfg"
  assumes "0 < m" and "safe_integer m" and "safe_integer (i - b)"
    and "safe_integer (baseTransitionMoment (momentBaseInfo cfg) + (i - b) div m)"
  shows "getMoment cfg now index
           = js_int (baseTransitionMoment (momentBaseInfo cfg) + (i - b) div m)"
proof -
  have q: "Math_floor (js_div (js_int (i - b)) (js_int m)) = js_int ((i - b) div m)"
    using assms(4,5,6) by (rule floor_quotient_safe)
  show ?thesis
    unfolding getMoment_def Let_def i_def [symmetric] b_def [symmetric] m_def [symmetric]
      js_sub_safe [OF assms(6)] q js_add_safe [OF assms(7)] ..
qed

lemma getMomentStartIndex_safe:
  fixes cfg now index
  defines "i \<equiv> index_or_now index now"
  defines "b \<equiv> baseIdx (momentBaseInfo cfg)"
  defines "m \<equiv> momentSize cfg"
  assumes "0 < m" and "safe_integer m" and "safe_integer (i - b)"
    and "safe_integer ((i - b) div m * m)"
    and "safe_integer (b + (i - b) div m * m)"
  shows "getMomentStartIndex cfg now index = js_int (b + (i - b) div m * m)"
proof -
  have q: "Math_floor (js_div (js_int (i - b)) (js_int m)) = js_int ((i - b) div m)"
    using assms(4,5,6) by (rule floor_quotient_safe)
  show ?thesis
    unfolding getMomentStartIndex_def Let_def i_def [symmetric] b_def [symmetric]
      m_def [symmetric] js_sub_safe [OF assms(6)] q js_mul_safe [OF assms(7)]
      js_add_safe [OF assms(8)] ..
qed

lemma js_round_not_NaN [simp]: "js_round x \<noteq> NaN"
  by (simp add: js_round_def Let_def)

lemma js_le_round_PosInf [simp]: "js_le (js_round x) PosInf"
  by (simp add: js_round_def Let_def)

lemma js_le_NegInf_round [simp]: "js_le NegInf (js_round x)"
  by (simp add: js_round_def Let_def)

lemma js_round_mono: "x \<le> y \<Longrightarrow> js_le (js_round x) (js_round y)"
  using round_value_mono [of x y] by (auto simp: js_round_def Let_def)

lemma js_le_refl: "a \<noteq> NaN \<Longrightarrow> js_le a a"
  by (cases a) simp_all

lemma js_div_mono:
  assumes "0 < m" and "js_le a b"
  shows "js_le (js_div a (Num m)) (js_div b (Num m))"
proof (cases a)
  case (Num x)
  then show ?thesis
    using assms by (cases b) (simp_all add: js_div_def js_round_mono divide_right_mono)
next
  case PosInf
  then show ?thesis using assms by (cases b) (simp_all add: js_div_def)
next
  case NegInf
  then show ?thesis
    using assms by (cases b) (simp_all add: js_div_def)
next
  case NaN
  then show ?thesis using assms by simp
qed

lemma Math_floor_mono: "js_le a b \<Longrightarrow> js_le (Math_floor a) (Math_floor b)"
  by (cases a; cases b) (simp_all add: floor_mono)

lemma js_add_mono: "js_le a b \<Longrightarrow> js_le (js_add (Num c) a) (js_add (Num c) b)"
  by (cases a; cases b) (simp_all add: js_add_def js_round_mono)

lemma getMoment_mono:
  assumes "0 < momentSize cfg" and "index_or_now index now \<le> index_or_now index' now'"
  shows "js_le (getMoment cfg now index) (getMoment cfg now' index')"
proof -
  let ?b = "baseIdx (momentBaseInfo cfg)"
  have "js_le (js_sub (js_int (index_or_now index now)) (js_int ?b))
              (js_sub (js_int (index_or_now index' now')) (js_int ?b))"
    using assms(2) by (simp add: js_sub_int js_round_mono)
  then have "js_le (js_div (js_sub (js_int (index_or_now index now)) (js_int ?b))
                           (js_int (momentSize cfg)))
                   (js_div (js_sub (js_int (index_or_now index' now')) (js_int ?b))
                           (js_int (momentSize cfg)))"
    unfolding js_int_def [of "momentSize cfg"] using assms(1) by (intro js_div_mono) simp_all
  then show ?thesis
    unfolding getMoment_def Let_def js_int_def [of "baseTransitionMoment (momentBaseInfo cfg)"]
    by (intro js_add_mono Math_floor_mono)
qed

text \<open>
  Outside the safe integers the results are not the ones of integer arithmetic. With
  \<open>baseIdx = -9007199254740991\<close> and moments of 3 seconds, the quotient of timestamp
  9007199254740991 is rounded up across an integer, and the moment returned is one more
  than the floor of the exact quotient. With \<open>baseIdx = -8907004733409300\<close> and moments
  of 7 seconds, the start index of timestamp 5322967372796018 is not a start index:
  the function maps it further down.
\<close>

lemma moment_rounding_example:
  "getMoment cfg_wide now (Some 9007199254740991) = Num 6004799503160661
   \<and> (9007199254740991 - baseIdx (momentBaseInfo cfg_wide)) div momentSize cfg_wide
       = 6004799503160660"
proof -
  have "js_round (rat_of_int 6004799503160661) = Num (rat_of_int 6004799503160661)"
    by (rule js_round_safe_integer) (simp add: safe_integer_def)
  then have "js_round 6004799503160661 = Num 6004799503160661" by simp
  then show ?thesis
    by (simp add: getMoment_def index_or_now_def cfg_wide_def js_sub_def js_add_def js_div_def
        js_int_def round_quotient_example_1 round_difference_example_1)
qed

lemma start_index_rounding_example:
  "getMomentStartIndex cfg7 now (Some 5322967372796018) = Num 5322967372796016
   \<and> getMomentStartIndex cfg7 now (Some 5322967372796016) = Num 5322967372796010"
proof -
  have a: "js_round 14229972106205318 = Num 14229972106205318"
    using js_round_in_binade [of 53 "14229972106205318" 7114986053102659 1] by simp
  have b: "js_round (14229972106205318 / 7) = Num (8131412632117325 / 4)"
    using js_round_in_binade [of 50 "14229972106205318 / 7" "4 * 14229972106205318" 7] by simp
  have c: "js_round 14229972106205317 = Num 14229972106205316"
    using js_round_in_binade [of 53 "14229972106205317" 14229972106205317 2] by simp
  have "js_round (rat_of_int 5322967372796016) = Num (rat_of_int 5322967372796016)"
    by (rule js_round_safe_integer) (simp add: safe_integer_def)
  then have d: "js_round 5322967372796016 = Num 5322967372796016" by simp
  have a': "js_round 14229972106205316 = Num 14229972106205316"
    using js_round_in_binade [of 53 "14229972106205316" 7114986053102658 1] by simp
  have b': "js_round (14229972106205316 / 7) = Num (8131412632117323 / 4)"
    using js_round_in_binade [of 50 "14229972106205316 / 7" "4 * 14229972106205316" 7] by simp
  have c': "js_round 14229972106205310 = Num 14229972106205310"
    using js_round_in_binade [of 53 "14229972106205310" 7114986053102655 1] by simp
  have "js_round (rat_of_int 5322967372796010) = Num (rat_of_int 5322967372796010)"
    by (rule js_round_safe_integer) (simp add: safe_integer_def)
  then have d': "js_round 5322967372796010 = Num 5322967372796010" by simp
  have f: "\<lfloor>8131412632117325 / 4 :: rat\<rfloor> = 2032853158029331"
    using floor_divide_of_int_eq [of 8131412632117325 4, where ?'a = rat] by simp
  have f': "\<lfloor>8131412632117323 / 4 :: rat\<rfloor> = 2032853158029330"
    using floor_divide_of_int_eq [of 8131412632117323 4, where ?'a = rat] by simp
  have 1: "getMomentStartIndex cfg7 now (Some 5322967372796018) = Num 5322967372796016"
    by (simp add: getMomentStartIndex_def index_or_now_def cfg7_def js_sub_def js_add_def
        js_div_def js_mul_def js_int_def a b c d f)
  have 2: "getMomentStartIndex cfg7 now (Some 5322967372796016) = Num 5322967372796010"
    by (simp add: getMomentStartIndex_def index_or_now_def cfg7_def js_sub_def js_add_def
        js_div_def js_mul_def js_int_def a' b' c' d' f')
  from 1 2 show ?thesis by simp
qed

lemma floor_quotient_bounds:
  fixes a m :: int
  assumes "0 < m"
  shows "(a div m) * m \<le> a \<and> a < (a div m + 1) * m"
proof -
  define q r where "q = a div m" and "r = a mod m"
  have "a = q * m + r" by (simp add: q_def r_def)
  moreover have "0 \<le> r" "r < m" using assms by (simp_all add: r_def)
  ultimately have "q * m \<le> a \<and> a < (q + 1) * m" by (simp add: algebra_simps)
  then show ?thesis by (simp add: q_def)
qed

text \<open>
  C4 (amended). Let \<open>momentSize > 0\<close> be a safe integer, \<open>t\<close> an explicitly supplied
  timestamp other than 0 whose distance \<open>t - baseIdx\<close> is a safe integer, and \<open>q\<close> the
  floor of \<open>(t - baseIdx) / momentSize\<close>: the integer with
  \<open>q * momentSize \<le> t - baseIdx < (q + 1) * momentSize\<close>, which is negative for every
  \<open>t < baseIdx\<close> (truncation toward zero would give 0 just below \<open>baseIdx\<close>). Then
  \<open>getMoment\<close> returns \<open>baseTransitionMoment + q\<close> if that sum is a safe integer, and
  \<open>getMomentStartIndex\<close> returns \<open>baseIdx + q * momentSize\<close> if the product and the sum
  are safe integers.
\<close>

theorem moment_formula_floor:
  assumes "0 < momentSize cfg" and "t \<noteq> 0"
    and "safe_integer (momentSize cfg)"
    and "safe_integer (t - baseIdx (momentBaseInfo cfg))"
  defines "q \<equiv> (t - baseIdx (momentBaseInfo cfg)) div momentSize cfg"
  shows "(safe_integer (baseTransitionMoment (momentBaseInfo cfg) + q) \<longrightarrow>
            getMoment cfg now (Some t) = js_int (baseTransitionMoment (momentBaseInfo cfg) + q))
       \<and> (safe_integer (q * momentSize cfg)
            \<and> safe_integer (baseIdx (momentBaseInfo cfg) + q * momentSize cfg) \<longrightarrow>
            getMomentStartIndex cfg now (Some t)
              = js_int (baseIdx (momentBaseInfo cfg) + q * momentSize cfg))
       \<and> q * momentSize cfg \<le> t - baseIdx (momentBaseInfo cfg)
       \<and> t - baseIdx (momentBaseInfo cfg) < (q + 1) * momentSize cfg
       \<and> (t < baseIdx (momentBaseInfo cfg) \<longrightarrow> q < 0)"
proof -
  have i: "index_or_now (Some t) now = t" using assms(2) by (simp add: index_or_now_def)
  have a: "getMoment cfg now (Some t) = js_int (baseTransitionMoment (momentBaseInfo cfg) + q)"
    if "safe_integer (baseTransitionMoment (momentBaseInfo cfg) + q)"
    using getMoment_safe [of cfg "Some t" now] assms(1,3,4) that by (simp add: i q_def)
  have s: "getMomentStartIndex cfg now (Some t)
             = js_int (baseIdx (momentBaseInfo cfg) + q * momentSize cfg)"
    if "safe_integer (q * momentSize cfg)"
      and "safe_integer (baseIdx (momentBaseInfo cfg) + q * momentSize cfg)"
    using getMomentStartIndex_safe [of cfg "Some t" now] assms(1,3,4) that by (simp add: i q_def)
  have b: "q * momentSize cfg \<le> t - baseIdx (momentBaseInfo cfg)
         \<and> t - baseIdx (momentBaseInfo cfg) < (q + 1) * momentSize cfg"
    unfolding q_def by (rule floor_quotient_bounds [OF assms(1)])
  have neg: "t < baseIdx (momentBaseInfo cfg) \<longrightarrow> q < 0"
    unfolding q_def using assms(1) by (simp add: div_neg_pos_less0)
  from a s b neg show ?thesis by blast
qed


theorem moment_formula_floor_witness:
  "getMoment cfg_late 0 (Some 995) = Num 6
   \<and> getMomentStartIndex cfg_late 0 (Some 995) = Num 990"
  using moment_formula_floor [of cfg_late 995 0]
  by (simp add: cfg_late_def safe_integer_def js_int_def)

theorem moment_of_zero_counterexample:
  "getMoment cfg10 100 (Some 0)
     \<noteq> js_int (baseTransitionMoment (momentBaseInfo cfg10)
               + (0 - baseIdx (momentBaseInfo cfg10)) div momentSize cfg10)"
  using getMoment_safe [of cfg10 "Some 0" 100]
  by (simp add: cfg10_def index_or_now_def safe_integer_def js_int_def)

text \<open>
  C5 (amended). For \<open>momentSize > 0\<close>, \<open>getMoment\<close> is monotone in the timestamp it
  computes from, whatever the magnitudes: \<open>getMoment t \<le> getMoment t'\<close> for timestamps
  \<open>t \<le> t'\<close> that are both different from 0, and generally whenever the timestamps
  that the two calls substitute for their arguments are so ordered. For any argument
  of \<open>getMomentStartIndex\<close>, let \<open>s\<close> be \<open>baseIdx\<close> plus the floor quotient times
  \<open>momentSize\<close>; if \<open>momentSize\<close>, the distance of the timestamp from \<open>baseIdx\<close>,
  \<open>s - baseIdx\<close> and \<open>s\<close> are safe integers, the function returns \<open>s\<close>, and when \<open>s\<close> is
  different from 0 it returns \<open>s\<close> again for the argument \<open>s\<close>. The clock readings of
  the calls are arbitrary.
\<close>

theorem moment_monotone_idempotent:
  fixes cfg :: config and now now' :: int and index index' :: "int option"
  defines "b \<equiv> baseIdx (momentBaseInfo cfg)"
  defines "m \<equiv> momentSize cfg"
  defines "s \<equiv> b + (index_or_now index now - b) div m * m"
  assumes "0 < m"
  shows "(t \<noteq> 0 \<and> t' \<noteq> 0 \<and> t \<le> t' \<longrightarrow>
            js_le (getMoment cfg now (Some t)) (getMoment cfg now' (Some t')))
       \<and> (index_or_now index now \<le> index_or_now index' now' \<longrightarrow>
            js_le (getMoment cfg now index) (getMoment cfg now' index'))
       \<and> (safe_integer m \<and> safe_integer (index_or_now index now - b)
            \<and> safe_integer (s - b) \<and> safe_integer s \<longrightarrow>
            getMomentStartIndex cfg now index = js_int s
            \<and> (s \<noteq> 0 \<longrightarrow> getMomentStartIndex cfg now' (Some s) = js_int s))"
proof -
  have pos: "0 < momentSize cfg" using assms(4) by (simp add: m_def)
  have 1: "js_le (getMoment cfg now (Some t)) (getMoment cfg now' (Some t'))"
    if "t \<noteq> 0" "t' \<noteq> 0" "t \<le> t'"
    using that by (intro getMoment_mono [OF pos]) (simp add: index_or_now_def)
  have 2: "js_le (getMoment cfg now index) (getMoment cfg now' index')"
    if "index_or_now index now \<le> index_or_now index' now'"
    using pos that by (rule getMoment_mono)
  have 3: "getMomentStartIndex cfg now index = js_int s
           \<and> (s \<noteq> 0 \<longrightarrow> getMomentStartIndex cfg now' (Some s) = js_int s)"
    if r: "safe_integer m" "safe_integer (index_or_now index now - b)"
      "safe_integer (s - b)" "safe_integer s"
  proof -
    have sb: "s - b = (index_or_now index now - b) div m * m" by (simp add: s_def)
    have first: "getMomentStartIndex cfg now index = js_int s"
      using getMomentStartIndex_safe [of cfg index now] pos r
      by (simp add: sb b_def [symmetric] m_def [symmetric]) (simp add: s_def)
    have second: "getMomentStartIndex cfg now' (Some s) = js_int s" if "s \<noteq> 0"
    proof -
      have i: "index_or_now (Some s) now' = s" using that by (simp add: index_or_now_def)
      have q: "(s - b) div m = (index_or_now index now - b) div m"
        using assms(4) by (simp add: sb)
      have "getMomentStartIndex cfg now' (Some s) = js_int (b + (s - b) div m * m)"
        using getMomentStartIndex_safe [of cfg "Some s" now'] pos r
        by (simp add: i q b_def [symmetric] m_def [symmetric] sb [symmetric])
      then show ?thesis by (simp add: q s_def)
    qed
    from first second show ?thesis by blast
  qed
  from 1 2 3 show ?thesis by blast
qed


theorem moment_monotone_idempotent_witness:
  "js_le (getMoment cfg_late 0 (Some 995)) (getMoment cfg_late 1 (Some 1005))
   \<and> getMomentStartIndex cfg_late 0 (Some 995) = Num 990
   \<and> getMomentStartIndex cfg_late 1 (Some 990) = Num 990"
  using moment_monotone_idempotent [where cfg = cfg_late and index = "Some 995" and now = 0
      and index' = "Some 1005" and now' = 1 and t = 995 and t' = 1005]
  by (simp add: cfg_late_def safe_integer_def js_int_def index_or_now_def)

theorem start_index_idempotence_counterexample:
  "getMomentStartIndex cfg10 100 (Some 5) = Num 0
   \<and> getMomentStartIndex cfg10 100 (Some 0) = Num 100
   \<and> getMoment cfg10 100 (Some 0) = Num 10
   \<and> getMoment cfg10 100 (Some 5) = Num 0
   \<and> \<not> js_le (getMoment cfg10 100 (Some 0)) (getMoment cfg10 100 (Some 5))"
  using getMomentStartIndex_safe [of cfg10 "Some 5" 100]
    getMomentStartIndex_safe [of cfg10 "Some 0" 100]
    getMoment_safe [of cfg10 "Some 0" 100] getMoment_safe [of cfg10 "Some 5" 100]
  by (simp add: cfg10_def index_or_now_def safe_integer_def js_int_def)



section \<open>Properties of the classifier's dispatch\<close>

lemmas dispatch_defs =
  is_acquire_lease_def is_acquire_success_def is_acquire_error_def is_host_reg_def
  is_host_dereg_def is_heartbeat_def is_extend_lease_def is_terminate_lease_def
  is_extend_success_def is_extend_error_def is_init_def is_host_update_info_def
  is_dead_host_prune_def is_host_rebate_def is_host_transfer_def is_candidate_propose_def
  is_candidate_withdraw_def is_candidate_status_change_def is_linked_candidate_remove_def
  is_hook_update_res_def is_governance_mode_change_def is_candidate_vote_def
  is_dud_host_report_def is_host_update_reputation_def




lemma fixture_eventType [simp]:
  "eventType (fixture_tx t d (event_params et ed) ms) = Some et"
  by (simp add: eventType_def fixture_tx_def event_params_def)

lemma fixture_eventData [simp]:
  "eventData (fixture_tx t d (event_params et ed) ms) = ed"
  by (simp add: eventData_def fixture_tx_def event_params_def)


text \<open>What makes the Buffer readers and each branch body throw.\<close>

lemma throws_simps [simp]: "throws (Inl e)" "\<not> throws (Inr v)"
  by (simp_all add: throws_def)

lemma throws_event [simp]: "\<not> throws (event n d)"
  by (simp add: event_def)

lemma throws_iff: "throws r \<longleftrightarrow> (\<exists>e. r = Inl e)"
  by (cases r) simp_all




lemma throws_readInt8: "throws (readInt8 buf off) \<longleftrightarrow> length buf \<le> off"
  by (simp add: readInt8_def)



























section \<open>Properties of the hex coding and of the Buffer helpers\<close>

lemma nibble_cases:
  assumes "d < (16::nat)"
  shows "d = 0 \<or> d = 1 \<or> d = 2 \<or> d = 3 \<or> d = 4 \<or> d = 5 \<or> d = 6 \<or> d = 7 \<or> d = 8 \<or> d = 9
       \<or> d = 10 \<or> d = 11 \<or> d = 12 \<or> d = 13 \<or> d = 14 \<or> d = 15"
  using assms by arith

lemma hex_digit_val_hex_char: "d < 16 \<Longrightarrow> hex_digit_val (hex_char d) = Some d"
  by (drule nibble_cases) (elim disjE; simp add: hex_digit_val_def hex_char_def)

lemma hex_digit_val_upper_hex_char:
  "d < 16 \<Longrightarrow> hex_digit_val (upper_char (hex_char d)) = Some d"
  by (drule nibble_cases) (elim disjE; simp add: hex_digit_val_def hex_char_def upper_char_def)

lemma lower_char_hex_char: "d < 16 \<Longrightarrow> lower_char (hex_char d) = hex_char d"
  by (drule nibble_cases) (elim disjE; simp add: hex_char_def lower_char_def)

lemma unat_byte_div16: "unat (b :: byte) div 16 < 16"
proof -
  have "unat b < 256" using unsigned_less [of b, where ?'a = nat] by simp
  then show ?thesis by simp
qed

lemma hex_decode_encode_append: "hex_decode (hex_encode bs @ s) = bs @ hex_decode s"
  by (induction bs) (simp_all add: hex_encode_def hex_digit_val_hex_char unat_byte_div16)

lemma hex_decode_encode [simp]: "hex_decode (hex_encode bs) = bs"
  using hex_decode_encode_append [of bs "[]"] by simp

lemma hex_decode_upper_encode_append:
  "hex_decode (toUpperCase (hex_encode bs) @ s) = bs @ hex_decode s"
  by (induction bs)
     (simp_all add: hex_encode_def toUpperCase_def hex_digit_val_upper_hex_char unat_byte_div16)

lemma length_hex_encode [simp]: "length (hex_encode bs) = 2 * length bs"
  by (induction bs) (simp_all add: hex_encode_def)

lemma length_toUpperCase [simp]: "length (toUpperCase s) = length s"
  by (simp add: toUpperCase_def)

lemma toLocaleLowerCase_hex_encode [simp]: "toLocaleLowerCase (hex_encode bs) = hex_encode bs"
  by (induction bs)
     (simp_all add: hex_encode_def toLocaleLowerCase_def lower_char_hex_char unat_byte_div16)

lemma length_hex_decode: "2 * length (hex_decode s) \<le> length s"
  by (induction s rule: hex_decode.induct) (auto split: option.splits)

lemma length_buf_copy [simp]:
  "start \<le> length target \<Longrightarrow> length (buf_copy src target start) = length target"
  unfolding buf_copy_def Let_def by (auto simp: min_def)

lemma Number_of_BigInt_small: "n < 2 ^ 53 \<Longrightarrow> Number_of_BigInt n = n"
  by (simp add: Number_of_BigInt_def)

section \<open>Host deregistration\<close>

lemma host_dereg_dispatch:
  "is_host_dereg tx \<Longrightarrow> extractEvernodeEvent env tx = host_dereg_event env tx"
  by (simp add: extractEvernodeEvent_def dispatch_defs)

text \<open>
  The comparison \<^verbatim>\<open>eventData.length === HOST_DEREG_FROM_REP_PARAM_SIZE\<close> counts the hex
  digits of the parameter, two per byte: a payload of 53 bytes never passes it.
\<close>

lemma host_dereg_53_bytes_reports_sender:
  assumes "is_host_dereg tx" and "length (hex_decode (eventData tx)) = 53"
  shows "extractEvernodeEvent env tx = event ''HostDeregistered'' [(''host'', JStr (Account tx))]"
proof -
  have "106 \<le> length (eventData tx)"
    using length_hex_decode [of "eventData tx"] assms(2) by simp
  then show ?thesis
    using assms(1) by (simp add: host_dereg_dispatch host_dereg_event_def)
qed

text \<open>
  C2 (the code at a host deregistration sent by the reputation account). The event data
  of \<open>host_dereg_rep_tx\<close> is 53 bytes long and its first 20 bytes are the account id of
  \<open>ACCOUNT_ZERO\<close>, yet the reported host is the sending account.
\<close>

theorem host_dereg_rep_payload_reports_sender:
  "is_host_dereg host_dereg_rep_tx
   \<and> length (hex_decode (eventData host_dereg_rep_tx)) = 53
   \<and> encodeAccountID fixture_env (slice_buf 0 20 (hex_decode (eventData host_dereg_rep_tx)))
       = Inr ACCOUNT_ZERO
   \<and> extractEvernodeEvent fixture_env host_dereg_rep_tx
       = event ''HostDeregistered'' [(''host'', JStr tenantAddress)]"
proof -
  have d: "is_host_dereg host_dereg_rep_tx"
    by (simp add: is_host_dereg_def host_dereg_rep_tx_def)
  have l: "length (hex_decode (eventData host_dereg_rep_tx)) = 53"
    by (simp add: host_dereg_rep_tx_def hex_digit_val_def)
  have a: "encodeAccountID fixture_env (slice_buf 0 20 (hex_decode (eventData host_dereg_rep_tx)))
             = Inr ACCOUNT_ZERO"
    by (simp add: host_dereg_rep_tx_def hex_digit_val_def slice_buf_def fixture_env_def
        fixture_encodeAccountID_def account_id_zero_def)
  have acc: "Account host_dereg_rep_tx = tenantAddress"
    by (simp add: host_dereg_rep_tx_def fixture_tx_def)
  show ?thesis
    using d l a host_dereg_53_bytes_reports_sender [OF d l, of fixture_env] acc by simp
qed

section \<open>Candidate status changes\<close>

lemma candidate_status_change_dispatch:
  "is_candidate_status_change tx \<Longrightarrow>
   extractEvernodeEvent env tx = candidate_status_change_event env tx"
  by (simp add: extractEvernodeEvent_def dispatch_defs)

lemma slice_address_of_candidate_id:
  "slice_buf 12 32 (slice_buf 0 32 buf) = slice_buf 12 32 buf"
  by (simp add: slice_buf_def drop_take)

text \<open>
  C6 (amended). For a transaction that reaches the \<^verbatim>\<open>CANDIDATE_STATUS_CHANGE\<close> branch, let
  \<open>buf\<close> be the decoded event data, \<open>cid\<close> the lower-case hex of its first 32 bytes and
  \<open>ty\<close> the type that \<^verbatim>\<open>getCandidateType\<close> returns for \<open>cid\<close>. The outcome depends on
  \<open>ty\<close> as follows. DudHost: when \<open>buf\<close> has a byte at offset 32 and the address codec
  accepts bytes 12..32, the event is DudHostRemoved if that byte is
  \<^verbatim>\<open>CANDIDATE_ELECTED\<close> and DudHostStatusChanged otherwise, with the encoded address as
  host; when \<open>buf\<close> has no byte at offset 32 the read throws a \<^verbatim>\<open>RangeError\<close>.
  PilotedMode: FallbackToPiloted. NewHook: NewHookStatusChanged. Any other type: no
  event.
\<close>

theorem candidate_status_change_outcome:
  assumes "is_candidate_status_change tx"
    and "getCandidateType env (hex_encode (slice_buf 0 32 (hex_decode (eventData tx)))) = Inr ty"
  defines "buf \<equiv> hex_decode (eventData tx)"
  defines "cid \<equiv> hex_encode (slice_buf 0 32 buf)"
  defines "r \<equiv> extractEvernodeEvent env tx"
  shows "(ty = CandidateTypes_DudHost \<longrightarrow> 32 < length buf \<longrightarrow>
            (\<forall>h. encodeAccountID env (slice_buf DUD_HOST_CANDID_ADDRESS_OFFSET 32 buf) = Inr h \<longrightarrow>
                 r = event (if unat (buf ! 32) = CANDIDATE_ELECTED then ''DudHostRemoved''
                            else ''DudHostStatusChanged'')
                       [(''candidateId'', JStr cid), (''host'', JStr h)]))
       \<and> (ty = CandidateTypes_DudHost \<longrightarrow> length buf \<le> 32 \<longrightarrow> r = Inl RangeError)
       \<and> (ty = CandidateTypes_PilotedMode \<longrightarrow>
            r = event ''FallbackToPiloted'' [(''candidateId'', JStr cid)])
       \<and> (ty = CandidateTypes_NewHook \<longrightarrow>
            r = event ''NewHookStatusChanged'' [(''candidateId'', JStr cid)])
       \<and> (ty \<noteq> CandidateTypes_DudHost \<and> ty \<noteq> CandidateTypes_PilotedMode
            \<and> ty \<noteq> CandidateTypes_NewHook \<longrightarrow> r = Inr None)"
  using assms(2)
  unfolding r_def cid_def buf_def candidate_status_change_dispatch [OF assms(1)]
  by (simp add: candidate_status_change_event_def Let_def readUInt8_def
      slice_address_of_candidate_id)

lemma status_change_tx_data:
  "hex_decode (eventData status_change_tx)
     = dud_candidate_id_bytes @ [0x02]"
  by (simp add: status_change_tx_def hex_digit_val_def dud_candidate_id_bytes_def)

lemma status_change_short_tx_data:
  "hex_decode (eventData status_change_short_tx)
     = dud_candidate_id_bytes"
  by (simp add: status_change_short_tx_def hex_digit_val_def dud_candidate_id_bytes_def)

lemma length_dud_candidate_id_bytes [simp]: "length dud_candidate_id_bytes = 32"
  by (simp add: dud_candidate_id_bytes_def)

lemma dud_candidate_id_encoded: "hex_encode dud_candidate_id_bytes = dud_candidate_id"
  by (simp add: hex_encode_def hex_char_def dud_candidate_id_bytes_def)

lemma dud_candidate_id_address: "slice_buf 12 32 dud_candidate_id_bytes = account_id_zero"
  by (simp add: slice_buf_def dud_candidate_id_bytes_def account_id_zero_def)

lemma dud_candidate_id_type: "getCandidateType fixture_env dud_candidate_id = Inr 3"
  by (simp add: fixture_env_def fixture_getCandidateType_def readUInt8_def hex_digit_val_def)

theorem candidate_status_change_outcome_witness:
  "is_candidate_status_change status_change_tx
   \<and> extractEvernodeEvent fixture_env status_change_tx
       = event ''DudHostRemoved''
           [(''candidateId'', JStr dud_candidate_id), (''host'', JStr ACCOUNT_ZERO)]"
proof -
  have c: "is_candidate_status_change status_change_tx"
    by (simp add: is_candidate_status_change_def status_change_tx_def)
  have i: "hex_encode (slice_buf 0 32 (hex_decode (eventData status_change_tx))) = dud_candidate_id"
    unfolding status_change_tx_data by (simp add: slice_buf_def dud_candidate_id_encoded)
  have t: "getCandidateType fixture_env
             (hex_encode (slice_buf 0 32 (hex_decode (eventData status_change_tx)))) = Inr 3"
    unfolding i by (rule dud_candidate_id_type)
  have h: "encodeAccountID fixture_env (slice_buf 12 32 (hex_decode (eventData status_change_tx)))
             = Inr ACCOUNT_ZERO"
    unfolding status_change_tx_data
    using dud_candidate_id_address
    by (simp add: slice_buf_def fixture_env_def fixture_encodeAccountID_def account_id_zero_def)
  have b: "hex_decode (eventData status_change_tx) ! 32 = 0x02"
    unfolding status_change_tx_data by (simp add: nth_append)
  have l: "length (hex_decode (eventData status_change_tx)) = 33"
    unfolding status_change_tx_data by simp
  show ?thesis
    using candidate_status_change_outcome [OF c t] c h b l i by simp
qed

theorem status_change_without_status_byte_counterexample:
  "is_candidate_status_change status_change_short_tx
   \<and> getCandidateType fixture_env
       (hex_encode (slice_buf 0 32 (hex_decode (eventData status_change_short_tx))))
       = Inr CandidateTypes_DudHost
   \<and> extractEvernodeEvent fixture_env status_change_short_tx = Inl RangeError"
proof -
  have c: "is_candidate_status_change status_change_short_tx"
    by (simp add: is_candidate_status_change_def status_change_short_tx_def)
  have i: "hex_encode (slice_buf 0 32 (hex_decode (eventData status_change_short_tx)))
             = dud_candidate_id"
    unfolding status_change_short_tx_data by (simp add: slice_buf_def dud_candidate_id_encoded)
  have l: "length (hex_decode (eventData status_change_short_tx)) = 32"
    unfolding status_change_short_tx_data by simp
  have "extractEvernodeEvent fixture_env status_change_short_tx = Inl RangeError"
    unfolding candidate_status_change_dispatch [OF c]
    by (simp add: candidate_status_change_event_def Let_def i dud_candidate_id_type
        readUInt8_def l)
  with c i show ?thesis by (simp add: dud_candidate_id_type)
qed

section \<open>Lease payloads that cannot be decrypted\<close>

lemma lease_payload_decrypt_failure:
  assumes "Memos tx = mem # ms"
    and "m_format mem = MemoFormats_BASE64"
    and "Destination tx = address env"
    and "base64_decode env (m_data mem) = 1 # rest"
    and "decrypted_payload env (base64_encode env rest) = Inr d"
    and "\<not> truthy d"
  shows "lease_payload env tx = Inr (JStr (base64_encode env rest))"
  using assms
  by (simp add: lease_payload_def memo0_def Let_def readInt8_def slice_buf_def slice_from_def)

lemma acquire_lease_dispatch:
  "is_acquire_lease env tx \<Longrightarrow> extractEvernodeEvent env tx = acquire_lease_event env tx"
  by (simp add: extractEvernodeEvent_def)

lemma acquire_success_dispatch:
  "is_acquire_success tx \<Longrightarrow> extractEvernodeEvent env tx = acquire_success_event env tx"
  by (simp add: extractEvernodeEvent_def dispatch_defs)

text \<open>
  C7. Take a transaction whose first memo is in base64 format, whose destination is this
  client's address and whose decoded memo data starts with the flag byte 1, and let the
  decrypt step return a falsy result (the capability returns nothing, or there is no
  message key). If the transaction is classified as a lease acquisition, or as an
  acquire success, the classifier returns that event, and its payload is the base64
  text of the bytes after the flag, the text handed to the decrypt capability.
\<close>

theorem decrypt_failure_keeps_encrypted_payload:
  assumes "Memos tx = mem # ms"
    and "m_format mem = MemoFormats_BASE64"
    and "Destination tx = address env"
    and "base64_decode env (m_data mem) = 1 # rest"
    and "decrypted_payload env (base64_encode env rest) = Inr d"
    and "\<not> truthy d"
  shows "(is_acquire_lease env tx \<longrightarrow>
            (\<exists>ev. extractEvernodeEvent env tx = Inr (Some ev) \<and> ev_name ev = ''AcquireLease''
                  \<and> map_of (ev_data ev) ''payload'' = Some (JStr (base64_encode env rest))))
       \<and> (is_acquire_success tx \<longrightarrow>
            (\<exists>ev. extractEvernodeEvent env tx = Inr (Some ev) \<and> ev_name ev = ''AcquireSuccess''
                  \<and> map_of (ev_data ev) ''payload'' = Some (JStr (base64_encode env rest))))"
proof -
  note p = lease_payload_decrypt_failure [OF assms]
  have "is_acquire_lease env tx \<longrightarrow>
          (\<exists>ev. extractEvernodeEvent env tx = Inr (Some ev) \<and> ev_name ev = ''AcquireLease''
                \<and> map_of (ev_data ev) ''payload'' = Some (JStr (base64_encode env rest)))"
    by (simp add: acquire_lease_dispatch acquire_lease_event_def p event_def)
  moreover have "is_acquire_success tx \<longrightarrow>
          (\<exists>ev. extractEvernodeEvent env tx = Inr (Some ev) \<and> ev_name ev = ''AcquireSuccess''
                \<and> map_of (ev_data ev) ''payload'' = Some (JStr (base64_encode env rest)))"
    by (simp add: acquire_success_dispatch acquire_success_event_def p event_def)
  ultimately show ?thesis by blast
qed

theorem decrypt_failure_keeps_encrypted_payload_witness:
  "is_acquire_lease fixture_env acquire_lease_tx
   \<and> (\<exists>ev. extractEvernodeEvent fixture_env acquire_lease_tx = Inr (Some ev)
          \<and> ev_name ev = ''AcquireLease''
          \<and> map_of (ev_data ev) ''payload'' = Some (JStr ''QkM=''))
   \<and> is_acquire_success acquire_success_tx
   \<and> (\<exists>ev. extractEvernodeEvent fixture_env acquire_success_tx = Inr (Some ev)
          \<and> ev_name ev = ''AcquireSuccess''
          \<and> map_of (ev_data ev) ''payload'' = Some (JStr ''QkM=''))"
proof -
  let ?mem1 = "\<lparr>m_type = ACQUIRE_LEASE, m_format = MemoFormats_BASE64, m_data = ''AUJD''\<rparr>"
  let ?mem2 = "\<lparr>m_type = ACQUIRE_SUCCESS, m_format = MemoFormats_BASE64, m_data = ''AUJD''\<rparr>"
  have b: "base64_decode fixture_env ''AUJD'' = 1 # [0x42, 0x43]"
    by (simp add: fixture_env_def fixture_base64_decode_def)
  have e: "base64_encode fixture_env [0x42, 0x43] = ''QkM=''"
    by (simp add: fixture_env_def fixture_base64_encode_def)
  have d: "decrypted_payload fixture_env (base64_encode fixture_env [0x42, 0x43]) = Inr JNull"
    by (simp add: decrypted_payload_def fixture_env_def)
  have l: "is_acquire_lease fixture_env acquire_lease_tx"
    by (simp add: is_acquire_lease_def acquire_lease_tx_def fixture_tx_def fixture_env_def
        eventType_def memo0_has_def)
  have s: "is_acquire_success acquire_success_tx"
    by (simp add: is_acquire_success_def acquire_success_tx_def memo0_has_def)
      (simp add: fixture_tx_def)
  have 1: "\<exists>ev. extractEvernodeEvent fixture_env acquire_lease_tx = Inr (Some ev)
          \<and> ev_name ev = ''AcquireLease''
          \<and> map_of (ev_data ev) ''payload'' = Some (JStr ''QkM='')"
    using decrypt_failure_keeps_encrypted_payload
            [of acquire_lease_tx ?mem1 "[]" fixture_env "[0x42, 0x43]" JNull] b d l
    by (simp add: e) (simp add: acquire_lease_tx_def fixture_tx_def fixture_env_def)
  have 2: "\<exists>ev. extractEvernodeEvent fixture_env acquire_success_tx = Inr (Some ev)
          \<and> ev_name ev = ''AcquireSuccess''
          \<and> map_of (ev_data ev) ''payload'' = Some (JStr ''QkM='')"
    using decrypt_failure_keeps_encrypted_payload
            [of acquire_success_tx ?mem2 "[]" fixture_env "[0x42, 0x43]" JNull] b d s
    by (simp add: e) (simp add: acquire_success_tx_def fixture_tx_def fixture_env_def)
  from l s 1 2 show ?thesis by blast
qed

section \<open>Decoding the reputation contract info\<close>

lemma le_bytes_sum: "le_bytes bs = (\<Sum>i<length bs. unat (bs ! i) * 256 ^ i)"
proof (induction bs)
  case Nil
  show ?case by simp
next
  case (Cons a bs)
  have "(\<Sum>i<length (a # bs). unat ((a # bs) ! i) * 256 ^ i)
          = unat a + (\<Sum>i<length bs. unat (bs ! i) * 256 ^ Suc i)"
    by (simp add: sum.lessThan_Suc_shift del: sum.lessThan_Suc)
  also have "\<dots> = unat a + 256 * le_bytes bs"
    by (simp add: Cons.IH sum_distrib_left mult_ac)
  finally show ?case by simp
qed

lemma le_bytes_at_offset:
  assumes "off + 8 \<le> length buf"
  shows "le_bytes (take 8 (drop off buf)) = (\<Sum>i<8. unat (buf ! (off + i)) * 256 ^ i)"
proof -
  have "length (take 8 (drop off buf)) = 8" using assms by simp
  moreover have "take 8 (drop off buf) ! i = buf ! (off + i)" if "i < 8" for i
    using that assms by simp
  ultimately show ?thesis by (simp add: le_bytes_sum)
qed

lemma instanceMoment_cases:
  "instanceMoment buf =
     (if length buf \<le> 35 then Inr None
      else if length buf < 43 then Inl RangeError
      else Inr (Some (Number_of_BigInt (\<Sum>i<8. unat (buf ! (35 + i)) * 256 ^ i))))"
  by (simp add: instanceMoment_def readBigUInt64LE_def le_bytes_at_offset)

lemma rep_info_buffer_moment: "(\<Sum>i<8. unat (rep_info_buffer ! (35 + i)) * 256 ^ i) = 5"
proof -
  have "le_bytes (take 8 (drop 35 rep_info_buffer)) = 5"
    by (simp add: rep_info_buffer_def)
  moreover have "35 + 8 \<le> length rep_info_buffer" by (simp add: rep_info_buffer_def)
  ultimately show ?thesis using le_bytes_at_offset [of 35 rep_info_buffer] by simp
qed

text \<open>
  C8. The decoding returns nothing for a buffer of at most 35 bytes (the moment is not
  read), throws when the 8 bytes of the moment are not all there, and otherwise reads
  the moment as the little-endian 64-bit integer at offset 35 (as a number) and
  returns the record only when it equals the queried moment: \<open>pubkey\<close> is the lower-case
  hex of bytes \<open>[0, 33)\<close> and \<open>peerPort\<close> the little-endian 16-bit integer at offset 33.
  The 43-byte buffer of 33 bytes AB, 01 00 and 05 00 00 00 00 00 00 00 has moment 5 and
  decodes, when moment 5 is queried, to \<open>peerPort = 1\<close>.
\<close>

theorem reputation_contract_info_decode:
  "decodeReputationContractInfo d m buf =
     (if length buf \<le> REP_INFO_MOMENT_OFFSET then Inr None
      else if length buf < 43 then Inl RangeError
      else if int (Number_of_BigInt (\<Sum>i<8. unat (buf ! (REP_INFO_MOMENT_OFFSET + i)) * 256 ^ i))
                = m
      then Inr (Some \<lparr>domain = d, pubkey = hex_encode (take 33 buf),
                      peerPort = unat (buf ! 33) + 256 * unat (buf ! 34)\<rparr>)
      else Inr None)
   \<and> instanceMoment rep_info_buffer = Inr (Some 5)
   \<and> decodeReputationContractInfo d 5 rep_info_buffer
       = Inr (Some \<lparr>domain = d, pubkey = hex_encode (replicate 33 0xAB), peerPort = 1\<rparr>)"
proof -
  have g: "decodeReputationContractInfo d m buf =
     (if length buf \<le> 35 then Inr None
      else if length buf < 43 then Inl RangeError
      else if int (Number_of_BigInt (\<Sum>i<8. unat (buf ! (35 + i)) * 256 ^ i)) = m
      then Inr (Some \<lparr>domain = d, pubkey = hex_encode (take 33 buf),
                      peerPort = unat (buf ! 33) + 256 * unat (buf ! 34)\<rparr>)
      else Inr None)" for m buf
    by (simp add: decodeReputationContractInfo_def instanceMoment_cases readUInt16LE_def
        slice_buf_def)
  have i: "instanceMoment rep_info_buffer = Inr (Some 5)"
    by (simp add: instanceMoment_cases rep_info_buffer_moment Number_of_BigInt_small)
      (simp add: rep_info_buffer_def)
  have l: "length rep_info_buffer = 43" by (simp add: rep_info_buffer_def)
  have p: "take 33 rep_info_buffer = replicate 33 0xAB"
    and b: "rep_info_buffer ! 33 = 1" "rep_info_buffer ! 34 = 0"
    by (simp_all add: rep_info_buffer_def nth_append)
  have e: "decodeReputationContractInfo d 5 rep_info_buffer
       = Inr (Some \<lparr>domain = d, pubkey = hex_encode (replicate 33 0xAB), peerPort = 1\<rparr>)"
    by (simp add: g l rep_info_buffer_moment Number_of_BigInt_small p b)
  from g i e show ?thesis by simp
qed

theorem reputation_contract_info_decode_witness:
  "decodeReputationContractInfo JNull 5 rep_info_buffer
     = Inr (Some \<lparr>domain = JNull, pubkey = hex_encode (replicate 33 0xAB), peerPort = 1\<rparr>)
   \<and> decodeReputationContractInfo JNull 4 rep_info_buffer = Inr None
   \<and> decodeReputationContractInfo JNull 5 (take 40 rep_info_buffer) = Inl RangeError
   \<and> decodeReputationContractInfo JNull 5 (take 35 rep_info_buffer) = Inr None"
  using reputation_contract_info_decode [of JNull 4 rep_info_buffer]
    reputation_contract_info_decode [of JNull 5 "take 40 rep_info_buffer"]
    reputation_contract_info_decode [of JNull 5 "take 35 rep_info_buffer"]
  by (simp add: rep_info_buffer_moment Number_of_BigInt_small) (simp add: rep_info_buffer_def)

section \<open>The candidate proposal payload\<close>

lemma hex_decode_upper_encode [simp]: "hex_decode (toUpperCase (hex_encode bs)) = bs"
  using hex_decode_upper_encode_append [of bs "[]"] by simp

lemma buf_copy_append:
  "length pre = start \<Longrightarrow> length src \<le> length rest \<Longrightarrow>
   buf_copy src (pre @ rest) start = pre @ src @ drop (length src) rest"
  by (simp add: buf_copy_def Let_def min_def)

lemma length_propose_paramBuf [simp]:
  "length (propose_paramBuf hashesBuf keylets uniqueId shortName) = 316"
  by (simp add: propose_paramBuf_def Let_def)

lemma buf_copy_append_take:
  "length pre = start \<Longrightarrow>
   buf_copy src (pre @ rest) start = pre @ take (length rest) src @ drop (length src) rest"
  by (simp add: buf_copy_def Let_def min_def)

text \<open>
  With fields of the lengths the hooks expect, the buffer is the four fields one after
  the other: the last one is the first 20 bytes of the encoded short name, followed by
  zero bytes when the name has fewer.
\<close>

lemma propose_paramBuf_fields:
  assumes "length hashesBuf = 128"
    and "length (hex_decode (concat keylets)) = 136"
    and "length (hex_decode uniqueId) = 32"
  shows "propose_paramBuf hashesBuf keylets uniqueId shortName
           = hashesBuf @ hex_decode (concat keylets) @ hex_decode uniqueId
             @ take 20 (utf8_bytes (substr 0 20 shortName))
             @ replicate (20 - length (utf8_bytes (substr 0 20 shortName))) 0"
proof -
  let ?k = "hex_decode (concat keylets)" and ?u = "hex_decode uniqueId"
  let ?n = "utf8_bytes (substr 0 20 shortName)"
  have 0: "replicate 316 (0::byte) = [] @ replicate 316 0" by simp
  have 1: "buf_copy hashesBuf (replicate 316 0) 0 = hashesBuf @ replicate 188 0"
    by (subst 0, subst buf_copy_append) (simp_all add: assms)
  have 2: "buf_copy ?k (hashesBuf @ replicate 188 0) 128 = hashesBuf @ ?k @ replicate 52 0"
    by (subst buf_copy_append) (simp_all add: assms)
  have 3: "buf_copy ?u ((hashesBuf @ ?k) @ replicate 52 0) 264
             = (hashesBuf @ ?k) @ ?u @ replicate 20 0"
    by (subst buf_copy_append) (simp_all add: assms)
  have 4: "buf_copy ?n ((hashesBuf @ ?k @ ?u) @ replicate 20 0) 296
             = (hashesBuf @ ?k @ ?u) @ take 20 ?n @ replicate (20 - length ?n) 0"
    by (subst buf_copy_append_take) (simp_all add: assms)
  have "propose_paramBuf hashesBuf keylets uniqueId shortName
          = buf_copy ?n (buf_copy ?u (buf_copy ?k (buf_copy hashesBuf (replicate 316 0) 0) 128)
                           264) 296"
    by (simp add: propose_paramBuf_def Let_def)
  also have "\<dots> = (hashesBuf @ ?k @ ?u) @ take 20 ?n @ replicate (20 - length ?n) 0"
    using 3 4 by (simp add: 1 2)
  finally show ?thesis by simp
qed

text \<open>
  The round trip of the payload: the two parameter values, concatenated and decoded,
  give back the 128, 136 and 32 byte fields at their offsets, and after them the first
  20 bytes of the encoded short name, padded with zero bytes.
\<close>

lemma propose_round_trip:
  assumes "propose_hookParams hashes keylets uniqueId shortName = Inr params"
    and "length (hex_decode (concat keylets)) = 136"
    and "length (hex_decode uniqueId) = 32"
  defines "buf \<equiv> hex_decode (hp_value (params ! 1) @ hp_value (params ! 2))"
  shows "slice_buf 0 128 buf = hex_decode hashes
       \<and> slice_buf 128 264 buf = hex_decode (concat keylets)
       \<and> slice_buf 264 296 buf = hex_decode uniqueId
       \<and> slice_buf 296 316 buf
           = take 20 (utf8_bytes (substr 0 20 shortName))
             @ replicate (20 - length (utf8_bytes (substr 0 20 shortName))) 0"
proof -
  have h: "length (hex_decode hashes) = 128"
    using assms(1) by (simp add: propose_hookParams_def Let_def split: if_splits)
  let ?p = "propose_paramBuf (hex_decode hashes) keylets uniqueId shortName"
  have "buf = slice_buf 0 256 ?p @ slice_from 256 ?p"
    using assms(1) h
    by (auto simp: propose_hookParams_def Let_def buf_def hex_decode_upper_encode_append)
  then have "buf = ?p" by (simp add: slice_buf_def slice_from_def)
  then show ?thesis
    using propose_paramBuf_fields [OF h assms(2,3), of shortName] h assms(2,3)
    by (simp add: slice_buf_def)
qed

text \<open>
  The classifier reads the first parameter value only: 256 bytes, 512 hex digits. The
  unique id starts at digit 528, so the candidate id it reports is the empty string.
\<close>

lemma propose_params_classified:
  assumes "propose_hookParams hashes keylets uniqueId shortName = Inr params"
  shows "extractEvernodeEvent env (propose_tx proposer params)
           = event ''CandidateProposed'' [(''owner'', JStr proposer), (''candidateId'', JStr [])]"
proof -
  let ?p = "propose_paramBuf (hex_decode hashes) keylets uniqueId shortName"
  let ?d = "toUpperCase (hex_encode (slice_buf 0 256 ?p))"
  have ps: "params = [\<lparr>hp_name = PARAM_EVENT_TYPE_KEY, hp_value = CANDIDATE_PROPOSE\<rparr>,
                      \<lparr>hp_name = PARAM_EVENT_DATA_KEY, hp_value = ?d\<rparr>,
                      \<lparr>hp_name = PARAM_EVENT_DATA2_KEY,
                       hp_value = toUpperCase (hex_encode (slice_from 256 ?p))\<rparr>]"
    using assms by (auto simp: propose_hookParams_def Let_def split: if_splits)
  have t: "eventType (propose_tx proposer params) = Some CANDIDATE_PROPOSE"
    by (simp add: eventType_def propose_tx_def ps)
  have d: "eventData (propose_tx proposer params) = ?d"
    by (simp add: eventData_def propose_tx_def ps)
  have l: "length ?d = 512" by (simp add: slice_buf_def)
  have ne: "?d \<noteq> []"
  proof
    assume e: "?d = []"
    have "length ?d = 0" by (subst e) simp
    with l show False by simp
  qed
  have s: "substr 528 64 ?d = []" using l by (simp add: substr_def)
  have a: "Account (propose_tx proposer params) = proposer" by (simp add: propose_tx_def)
  show ?thesis
    by (simp add: extractEvernodeEvent_def dispatch_defs t d ne s a)
qed

lemma propose_example_lengths:
  "length (hex_decode propose_hashes) = 128"
  "hex_decode (concat propose_keylets)
     = replicate 34 0x21 @ replicate 34 0x22 @ replicate 34 0x23 @ replicate 34 0x24"
  "hex_decode propose_uniqueId = replicate 32 0xAA"
  by (simp_all add: propose_hashes_def propose_keylets_def propose_uniqueId_def
      hex_decode_encode_append)

lemma propose_example_params:
  "propose_hookParams propose_hashes propose_keylets propose_uniqueId ''test hook''
     = Inr propose_params"
  by (simp add: propose_params_def propose_hookParams_def Let_def propose_example_lengths)

text \<open>
  C3 (the code at the parameters that the propose call sends). The proposal is built
  and split at byte 256; the two chunks, concatenated and decoded, hold the unique id
  at bytes 264..296; the classifier reports the empty string as candidate id.
\<close>

theorem propose_candidate_id_lost:
  "propose_hookParams propose_hashes propose_keylets propose_uniqueId ''test hook''
     = Inr propose_params
   \<and> slice_buf 264 296 (hex_decode (hp_value (propose_params ! 1) @ hp_value (propose_params ! 2)))
       = hex_decode propose_uniqueId
   \<and> hex_decode propose_uniqueId = replicate 32 0xAA
   \<and> extractEvernodeEvent fixture_env (propose_tx tenantAddress propose_params)
       = event ''CandidateProposed''
           [(''owner'', JStr tenantAddress), (''candidateId'', JStr [])]"
proof -
  note p = propose_example_params
  have h: "length (hex_decode propose_hashes) = 128" by (rule propose_example_lengths)
  let ?k = "hex_decode (concat propose_keylets)" and ?u = "hex_decode propose_uniqueId"
  have k: "length ?k = 136" and u: "length ?u = 32"
    by (simp_all add: propose_example_lengths)
  let ?p = "propose_paramBuf (hex_decode propose_hashes) propose_keylets propose_uniqueId
              ''test hook''"
  have ps: "propose_params =
              [\<lparr>hp_name = PARAM_EVENT_TYPE_KEY, hp_value = CANDIDATE_PROPOSE\<rparr>,
               \<lparr>hp_name = PARAM_EVENT_DATA_KEY,
                hp_value = toUpperCase (hex_encode (slice_buf 0 256 ?p))\<rparr>,
               \<lparr>hp_name = PARAM_EVENT_DATA2_KEY,
                hp_value = toUpperCase (hex_encode (slice_from 256 ?p))\<rparr>]"
    using p [symmetric] h by (simp add: propose_hookParams_def Let_def)
  have "hex_decode (hp_value (propose_params ! 1) @ hp_value (propose_params ! 2))
          = slice_buf 0 256 ?p @ slice_from 256 ?p"
    by (simp add: ps hex_decode_upper_encode_append)
  then have b: "hex_decode (hp_value (propose_params ! 1) @ hp_value (propose_params ! 2)) = ?p"
    by (simp add: slice_buf_def slice_from_def)
  have i: "slice_buf 264 296 ?p = ?u"
    using propose_paramBuf_fields [OF h k u, of "''test hook''"] h k u
    by (simp add: slice_buf_def)
  show ?thesis
    using p b i propose_params_classified [OF p, of fixture_env tenantAddress]
    by (simp add: propose_example_lengths)
qed

section \<open>The host of a legacy dud-host status change\<close>

text \<open>
  Whatever the codec, the host that the legacy branch reports for a dud-host candidate
  is what \<^verbatim>\<open>decodeAccountID\<close> returns for the Buffer of bytes 12..32 of the candidate id.
\<close>

lemma legacy_dud_host_goes_through_decodeAccountID:
  assumes "legacy_getCandidateType lenv (substr 0 64 (m_data (memo0 tx)))
             = Inr (legacy_DudHost lenv)"
  defines "cid \<equiv> substr 0 64 (m_data (memo0 tx))"
  shows "legacy_candidate_status_change_event lenv tx =
           (case decodeAccountID lenv (JBuf (slice_buf 12 32 (hex_decode cid))) of
              Inl e \<Rightarrow> Inl e
            | Inr host \<Rightarrow>
                event ''DudHostRemoved'' [(''candidateId'', JStr cid), (''host'', host)])"
  using assms(1) unfolding cid_def
  by (simp add: legacy_candidate_status_change_event_def Let_def)

lemma dud_candidate_id_decoded: "hex_decode dud_candidate_id = dud_candidate_id_bytes"
  by (simp add: hex_digit_val_def dud_candidate_id_bytes_def)

text \<open>
  C9 (the legacy code at a dud-host status change). The candidate id of
  \<open>legacy_status_change_tx\<close> embeds the account id of \<open>ACCOUNT_ZERO\<close> at offset 12. The
  address codec encodes those 20 bytes to \<open>ACCOUNT_ZERO\<close>; the legacy branch hands them
  to \<^verbatim>\<open>decodeAccountID\<close> instead, which rejects a Buffer, and throws.
\<close>

theorem legacy_dud_host_decoded_not_encoded:
  "legacy_is_candidate_status_change fixture_legacy_env legacy_status_change_tx
   \<and> legacy_getCandidateType fixture_legacy_env dud_candidate_id
       = Inr (legacy_DudHost fixture_legacy_env)
   \<and> fixture_encodeAccountID (slice_buf 12 32 (hex_decode dud_candidate_id)) = Inr ACCOUNT_ZERO
   \<and> legacy_candidate_status_change_event fixture_legacy_env legacy_status_change_tx
       = Inl TypeError"
proof -
  have c: "legacy_is_candidate_status_change fixture_legacy_env legacy_status_change_tx"
    by (simp add: legacy_is_candidate_status_change_def legacy_status_change_tx_def
        fixture_tx_def memo0_has_def fixture_legacy_env_def)
  have m: "substr 0 64 (m_data (memo0 legacy_status_change_tx)) = dud_candidate_id"
    by (simp add: legacy_status_change_tx_def fixture_tx_def memo0_def substr_def)
  have g: "fixture_getCandidateType dud_candidate_id = Inr 3"
    unfolding fixture_getCandidateType_def dud_candidate_id_decoded
    by (simp add: readUInt8_def dud_candidate_id_bytes_def)
  have t: "legacy_getCandidateType fixture_legacy_env dud_candidate_id
             = Inr (legacy_DudHost fixture_legacy_env)"
    by (simp add: fixture_legacy_env_def g)
  have a: "slice_buf 12 32 (hex_decode dud_candidate_id) = account_id_zero"
    unfolding dud_candidate_id_decoded by (rule dud_candidate_id_address)
  have e: "fixture_encodeAccountID account_id_zero = Inr ACCOUNT_ZERO"
    by (simp add: fixture_encodeAccountID_def) (simp add: account_id_zero_def)
  have d: "decodeAccountID fixture_legacy_env (JBuf account_id_zero) = Inl TypeError"
    by (simp add: fixture_legacy_env_def fixture_decodeAccountID_def)
  have "legacy_candidate_status_change_event fixture_legacy_env legacy_status_change_tx
          = Inl TypeError"
    using legacy_dud_host_goes_through_decodeAccountID
            [of fixture_legacy_env legacy_status_change_tx] t
    unfolding m a by (simp add: d)
  with c t a e show ?thesis by simp
qed

end
